theory Spec2Isabelle
  imports Complex_Main
begin

section \<open>Numbers, coercion and the scalar helper\<close>

text \<open>
  The development has two levels. In the first, which carries the claims on the
  destination convention, on aliasing, on the two \<open>equals\<close>, on the cross products and on
  the constructor, a TypeScript \<open>number\<close> is modelled as a \<open>real\<close>: arithmetic is exact, the
  narrowing of a component to 32 bits on a store into the \<open>Float32Array\<close> is not modelled,
  and \<open>NaN\<close> and the infinities are not numbers of the model. \<open>NaN\<close> still appears where
  the source produces it from values that are not numbers (\<open>Number(undefined)\<close>,
  \<open>Number([1, 1, 1])\<close>): there the coercion returns \<open>None\<close>. In the second level, which
  carries the claims on \<open>normalize\<close>, \<open>direction\<close> and \<open>lerp\<close>, a number is an IEEE 754
  binary64 value and every store rounds it to binary32; it starts with the section on
  IEEE arithmetic below.
\<close>

datatype jsvalue = JSUndefined | JSNumber real | JSArray "real list"

text \<open>
  \<open>Number(v)\<close>: \<open>undefined\<close> gives \<open>NaN\<close>; a number is itself; an array is first
  joined with commas and the string converted, so the empty array gives \<open>0\<close>, a one-element
  array its element, and an array of two or more numbers \<open>NaN\<close>.
\<close>

fun Number :: "jsvalue \<Rightarrow> real option" where
  "Number JSUndefined = None"
| "Number (JSNumber v) = Some v"
| "Number (JSArray []) = Some 0"
| "Number (JSArray [v]) = Some v"
| "Number (JSArray (v # w # vs)) = None"

text \<open>\<open>n || 0\<close> on a number: \<open>NaN\<close> and \<open>0\<close> are falsy, every other number is kept.\<close>

definition or_zero :: "real option \<Rightarrow> real" where
  "or_zero n = (case n of None \<Rightarrow> 0 | Some v \<Rightarrow> (if v = 0 then 0 else v))"

definition MathHelper_EPSILON :: real where
  "MathHelper_EPSILON = 0.00001"

text \<open>\<open>MathHelper.equals(a, b, tolerance = MathHelper.EPSILON)\<close>; \<open>None\<close> is the omitted argument.\<close>

definition MathHelper_equals :: "real \<Rightarrow> real \<Rightarrow> real option \<Rightarrow> bool" where
  "MathHelper_equals a b tolerance =
     (let tolerance = (case tolerance of None \<Rightarrow> MathHelper_EPSILON | Some t \<Rightarrow> t)
      in \<bar>a - b\<bar> \<le> tolerance * max (max 1 \<bar>a\<bar>) \<bar>b\<bar>)"

section \<open>Objects and the heap\<close>

text \<open>
  The \<open>_values\<close> buffer of a vector has a fixed number of slots, so it is a record of
  its slots. Vectors are objects: two variables may hold the same instance. The heap
  keeps the instances of each class in a list; a reference is an index into it, and
  \<open>new\<close> appends a fresh instance.
\<close>

record Vector2 =
  v2x :: real
  v2y :: real

record Vector3 =
  v3x :: real
  v3y :: real
  v3z :: real

record heap =
  vector2s :: "Vector2 list"
  vector3s :: "Vector3 list"

type_synonym ref = nat

section \<open>Vector3\<close>

subsection \<open>Accessors\<close>

definition Vector3_x :: "ref \<Rightarrow> heap \<Rightarrow> real" where
  "Vector3_x this h = v3x (vector3s h ! this)"

definition Vector3_y :: "ref \<Rightarrow> heap \<Rightarrow> real" where
  "Vector3_y this h = v3y (vector3s h ! this)"

definition Vector3_z :: "ref \<Rightarrow> heap \<Rightarrow> real" where
  "Vector3_z this h = v3z (vector3s h ! this)"

definition Vector3_xyz :: "ref \<Rightarrow> heap \<Rightarrow> real list" where
  "Vector3_xyz this h =
     [v3x (vector3s h ! this), v3y (vector3s h ! this), v3z (vector3s h ! this)]"

definition Vector3_set_x :: "ref \<Rightarrow> real \<Rightarrow> heap \<Rightarrow> heap" where
  "Vector3_set_x this v h =
     h\<lparr>vector3s := (vector3s h)[this := (vector3s h ! this)\<lparr>v3x := v\<rparr>]\<rparr>"

definition Vector3_set_y :: "ref \<Rightarrow> real \<Rightarrow> heap \<Rightarrow> heap" where
  "Vector3_set_y this v h =
     h\<lparr>vector3s := (vector3s h)[this := (vector3s h ! this)\<lparr>v3y := v\<rparr>]\<rparr>"

definition Vector3_set_z :: "ref \<Rightarrow> real \<Rightarrow> heap \<Rightarrow> heap" where
  "Vector3_set_z this v h =
     h\<lparr>vector3s := (vector3s h)[this := (vector3s h ! this)\<lparr>v3z := v\<rparr>]\<rparr>"

text \<open>
  The setter reads the first three elements of its array. Every call below passes an
  array of at least three numbers; a shorter one would store \<open>NaN\<close>.
\<close>

definition Vector3_set_xyz :: "ref \<Rightarrow> real list \<Rightarrow> heap \<Rightarrow> heap" where
  "Vector3_set_xyz this vs h =
     h\<lparr>vector3s := (vector3s h)
        [this := (vector3s h ! this)\<lparr>v3x := vs ! 0, v3y := vs ! 1, v3z := vs ! 2\<rparr>]\<rparr>"

subsection \<open>Construction and the named constants\<close>

text \<open>
  \<open>new Vector3(p1, p2, p3)\<close>: the instance is allocated with a zeroed buffer, then the
  constructor body runs. An omitted argument is \<open>JSUndefined\<close>.
\<close>

definition Vector3_new :: "jsvalue \<Rightarrow> jsvalue \<Rightarrow> jsvalue \<Rightarrow> heap \<Rightarrow> ref \<times> heap" where
  "Vector3_new p1 p2 p3 h =
     (let this = length (vector3s h);
          h = h\<lparr>vector3s := vector3s h @ [\<lparr>v3x = 0, v3y = 0, v3z = 0\<rparr>]\<rparr>
      in (this,
          case p1 of
            JSArray vs \<Rightarrow>
              (if length vs > 3 then Vector3_set_xyz this vs h
               else Vector3_set_xyz this
                      [or_zero (Number p1), or_zero (Number p2), or_zero (Number p3)] h)
          | _ \<Rightarrow> Vector3_set_xyz this
                   [or_zero (Number p1), or_zero (Number p2), or_zero (Number p3)] h))"

definition Vector3_zero :: "heap \<Rightarrow> ref \<times> heap" where
  "Vector3_zero h = Vector3_new (JSArray [0, 0, 0]) JSUndefined JSUndefined h"

definition Vector3_one :: "heap \<Rightarrow> ref \<times> heap" where
  "Vector3_one h = Vector3_new (JSArray [1, 1, 1]) JSUndefined JSUndefined h"

definition Vector3_up :: "heap \<Rightarrow> ref \<times> heap" where
  "Vector3_up h = Vector3_new (JSArray [0, 1, 0]) JSUndefined JSUndefined h"

definition Vector3_down :: "heap \<Rightarrow> ref \<times> heap" where
  "Vector3_down h = Vector3_new (JSArray [0, - 1, 0]) JSUndefined JSUndefined h"

definition Vector3_right :: "heap \<Rightarrow> ref \<times> heap" where
  "Vector3_right h = Vector3_new (JSArray [1, 0, 0]) JSUndefined JSUndefined h"

definition Vector3_left :: "heap \<Rightarrow> ref \<times> heap" where
  "Vector3_left h = Vector3_new (JSArray [0, 1, 0]) JSUndefined JSUndefined h"

definition Vector3_forward :: "heap \<Rightarrow> ref \<times> heap" where
  "Vector3_forward h = Vector3_new (JSArray [0, 0, 1]) JSUndefined JSUndefined h"

definition Vector3_backward :: "heap \<Rightarrow> ref \<times> heap" where
  "Vector3_backward h = Vector3_new (JSArray [0, 0, - 1]) JSUndefined JSUndefined h"

subsection \<open>Static operations\<close>

text \<open>
  The optional destination is a \<open>ref option\<close>; \<open>if (!dest) dest = new Vector3()\<close> is the
  first \<open>case\<close> of each static operation. Statements run in the source's order, each on
  the heap the previous one left.
\<close>

definition Vector3_cross :: "ref \<Rightarrow> ref \<Rightarrow> ref option \<Rightarrow> heap \<Rightarrow> ref \<times> heap" where
  "Vector3_cross vector vector2 dest h =
     (case (case dest of None \<Rightarrow> Vector3_new JSUndefined JSUndefined JSUndefined h
                       | Some d \<Rightarrow> (d, h)) of
        (dest, h) \<Rightarrow>
          let x = Vector3_x vector h;
              y = Vector3_y vector h;
              z = Vector3_z vector h;
              x2 = Vector3_x vector2 h;
              y2 = Vector3_y vector2 h;
              z2 = Vector3_z vector2 h;
              h = Vector3_set_x dest (y * z2 - z * y2) h;
              h = Vector3_set_y dest (z * x2 - x * z2) h;
              h = Vector3_set_z dest (x * y2 - y * x2) h
          in (dest, h))"

definition Vector3_sum :: "ref \<Rightarrow> ref \<Rightarrow> ref option \<Rightarrow> heap \<Rightarrow> ref \<times> heap" where
  "Vector3_sum vector vector2 dest h =
     (case (case dest of None \<Rightarrow> Vector3_new JSUndefined JSUndefined JSUndefined h
                       | Some d \<Rightarrow> (d, h)) of
        (dest, h) \<Rightarrow>
          let h = Vector3_set_x dest (Vector3_x vector h + Vector3_x vector2 h) h;
              h = Vector3_set_y dest (Vector3_y vector h + Vector3_y vector2 h) h;
              h = Vector3_set_z dest (Vector3_z vector h + Vector3_z vector2 h) h
          in (dest, h))"

definition Vector3_difference :: "ref \<Rightarrow> ref \<Rightarrow> ref option \<Rightarrow> heap \<Rightarrow> ref \<times> heap" where
  "Vector3_difference vector vector2 dest h =
     (case (case dest of None \<Rightarrow> Vector3_new JSUndefined JSUndefined JSUndefined h
                       | Some d \<Rightarrow> (d, h)) of
        (dest, h) \<Rightarrow>
          let h = Vector3_set_x dest (Vector3_x vector h - Vector3_x vector2 h) h;
              h = Vector3_set_y dest (Vector3_y vector h - Vector3_y vector2 h) h;
              h = Vector3_set_z dest (Vector3_z vector h - Vector3_z vector2 h) h
          in (dest, h))"

definition Vector3_product :: "ref \<Rightarrow> ref \<Rightarrow> ref option \<Rightarrow> heap \<Rightarrow> ref \<times> heap" where
  "Vector3_product vector vector2 dest h =
     (case (case dest of None \<Rightarrow> Vector3_new JSUndefined JSUndefined JSUndefined h
                       | Some d \<Rightarrow> (d, h)) of
        (dest, h) \<Rightarrow>
          let h = Vector3_set_x dest (Vector3_x vector h * Vector3_x vector2 h) h;
              h = Vector3_set_y dest (Vector3_y vector h * Vector3_y vector2 h) h;
              h = Vector3_set_z dest (Vector3_z vector h * Vector3_z vector2 h) h
          in (dest, h))"

subsection \<open>Instance operations\<close>


text \<open>\<open>if (!dest) dest = this\<close> is the first binding of each instance operation.\<close>

definition Vector3_add :: "ref \<Rightarrow> ref \<Rightarrow> ref option \<Rightarrow> heap \<Rightarrow> ref \<times> heap" where
  "Vector3_add this vector dest h =
     (let dest = (case dest of None \<Rightarrow> this | Some d \<Rightarrow> d);
          h = Vector3_set_x dest (Vector3_x this h + Vector3_x vector h) h;
          h = Vector3_set_y dest (Vector3_y this h + Vector3_y vector h) h;
          h = Vector3_set_z dest (Vector3_z this h + Vector3_z vector h) h
      in (dest, h))"

definition Vector3_subtract :: "ref \<Rightarrow> ref \<Rightarrow> ref option \<Rightarrow> heap \<Rightarrow> ref \<times> heap" where
  "Vector3_subtract this vector dest h =
     (let dest = (case dest of None \<Rightarrow> this | Some d \<Rightarrow> d);
          h = Vector3_set_x dest (Vector3_x this h - Vector3_x vector h) h;
          h = Vector3_set_y dest (Vector3_y this h - Vector3_y vector h) h;
          h = Vector3_set_z dest (Vector3_z this h - Vector3_z vector h) h
      in (dest, h))"

definition Vector3_multiply :: "ref \<Rightarrow> ref \<Rightarrow> ref option \<Rightarrow> heap \<Rightarrow> ref \<times> heap" where
  "Vector3_multiply this vector dest h =
     (let dest = (case dest of None \<Rightarrow> this | Some d \<Rightarrow> d);
          h = Vector3_set_x dest (Vector3_x this h * Vector3_x vector h) h;
          h = Vector3_set_y dest (Vector3_y this h * Vector3_y vector h) h;
          h = Vector3_set_z dest (Vector3_z this h * Vector3_z vector h) h
      in (dest, h))"

section \<open>Vector2\<close>

subsection \<open>Accessors\<close>

definition Vector2_x :: "ref \<Rightarrow> heap \<Rightarrow> real" where
  "Vector2_x this h = v2x (vector2s h ! this)"

definition Vector2_y :: "ref \<Rightarrow> heap \<Rightarrow> real" where
  "Vector2_y this h = v2y (vector2s h ! this)"

definition Vector2_xy :: "ref \<Rightarrow> heap \<Rightarrow> real list" where
  "Vector2_xy this h = [v2x (vector2s h ! this), v2y (vector2s h ! this)]"

definition Vector2_set_x :: "ref \<Rightarrow> real \<Rightarrow> heap \<Rightarrow> heap" where
  "Vector2_set_x this v h =
     h\<lparr>vector2s := (vector2s h)[this := (vector2s h ! this)\<lparr>v2x := v\<rparr>]\<rparr>"

definition Vector2_set_y :: "ref \<Rightarrow> real \<Rightarrow> heap \<Rightarrow> heap" where
  "Vector2_set_y this v h =
     h\<lparr>vector2s := (vector2s h)[this := (vector2s h ! this)\<lparr>v2y := v\<rparr>]\<rparr>"

text \<open>
  The setter reads the first two elements of its array; a shorter one would store
  \<open>NaN\<close>, and no statement below is about such a call.
\<close>

definition Vector2_set_xy :: "ref \<Rightarrow> real list \<Rightarrow> heap \<Rightarrow> heap" where
  "Vector2_set_xy this vs h =
     h\<lparr>vector2s := (vector2s h)
        [this := (vector2s h ! this)\<lparr>v2x := vs ! 0, v2y := vs ! 1\<rparr>]\<rparr>"

subsection \<open>Construction\<close>

text \<open>\<open>new Vector2(values)\<close>; \<open>None\<close> is the omitted argument (an array is always truthy).\<close>

definition Vector2_new :: "real list option \<Rightarrow> heap \<Rightarrow> ref \<times> heap" where
  "Vector2_new vs h =
     (let this = length (vector2s h);
          h = h\<lparr>vector2s := vector2s h @ [\<lparr>v2x = 0, v2y = 0\<rparr>]\<rparr>
      in (this,
          case vs of
            Some vs \<Rightarrow> Vector2_set_xy this vs h
          | None \<Rightarrow> Vector2_set_xy this [0, 0] h))"

subsection \<open>Static operations\<close>

text \<open>The destination of \<open>Vector2.cross\<close> is a \<open>Vector3\<close>.\<close>

definition Vector2_cross :: "ref \<Rightarrow> ref \<Rightarrow> ref option \<Rightarrow> heap \<Rightarrow> ref \<times> heap" where
  "Vector2_cross vector vector2 dest h =
     (case (case dest of None \<Rightarrow> Vector3_new JSUndefined JSUndefined JSUndefined h
                       | Some d \<Rightarrow> (d, h)) of
        (dest, h) \<Rightarrow>
          let x = Vector2_x vector h;
              y = Vector2_y vector h;
              x2 = Vector2_x vector2 h;
              y2 = Vector2_y vector2 h;
              z = x * y2 - y * x2;
              h = Vector3_set_xyz dest [0, 0, z] h
          in (dest, h))"

definition Vector2_sum :: "ref \<Rightarrow> ref \<Rightarrow> ref option \<Rightarrow> heap \<Rightarrow> ref \<times> heap" where
  "Vector2_sum vector vector2 dest h =
     (case (case dest of None \<Rightarrow> Vector2_new None h | Some d \<Rightarrow> (d, h)) of
        (dest, h) \<Rightarrow>
          let h = Vector2_set_x dest (Vector2_x vector h + Vector2_x vector2 h) h;
              h = Vector2_set_y dest (Vector2_y vector h + Vector2_y vector2 h) h
          in (dest, h))"

definition Vector2_difference :: "ref \<Rightarrow> ref \<Rightarrow> ref option \<Rightarrow> heap \<Rightarrow> ref \<times> heap" where
  "Vector2_difference vector vector2 dest h =
     (case (case dest of None \<Rightarrow> Vector2_new None h | Some d \<Rightarrow> (d, h)) of
        (dest, h) \<Rightarrow>
          let h = Vector2_set_x dest (Vector2_x vector h - Vector2_x vector2 h) h;
              h = Vector2_set_y dest (Vector2_y vector h - Vector2_y vector2 h) h
          in (dest, h))"

definition Vector2_product :: "ref \<Rightarrow> ref \<Rightarrow> ref option \<Rightarrow> heap \<Rightarrow> ref \<times> heap" where
  "Vector2_product vector vector2 dest h =
     (case (case dest of None \<Rightarrow> Vector2_new None h | Some d \<Rightarrow> (d, h)) of
        (dest, h) \<Rightarrow>
          let h = Vector2_set_x dest (Vector2_x vector h * Vector2_x vector2 h) h;
              h = Vector2_set_y dest (Vector2_y vector h * Vector2_y vector2 h) h
          in (dest, h))"

subsection \<open>Instance operations\<close>


definition Vector2_add :: "ref \<Rightarrow> ref \<Rightarrow> ref option \<Rightarrow> heap \<Rightarrow> ref \<times> heap" where
  "Vector2_add this vector dest h =
     (let dest = (case dest of None \<Rightarrow> this | Some d \<Rightarrow> d);
          h = Vector2_set_x dest (Vector2_x this h + Vector2_x vector h) h;
          h = Vector2_set_y dest (Vector2_y this h + Vector2_y vector h) h
      in (dest, h))"

definition Vector2_subtract :: "ref \<Rightarrow> ref \<Rightarrow> ref option \<Rightarrow> heap \<Rightarrow> ref \<times> heap" where
  "Vector2_subtract this vector dest h =
     (let dest = (case dest of None \<Rightarrow> this | Some d \<Rightarrow> d);
          h = Vector2_set_x dest (Vector2_x this h - Vector2_x vector h) h;
          h = Vector2_set_y dest (Vector2_y this h - Vector2_y vector h) h
      in (dest, h))"

definition Vector2_multiply :: "ref \<Rightarrow> ref \<Rightarrow> ref option \<Rightarrow> heap \<Rightarrow> ref \<times> heap" where
  "Vector2_multiply this vector dest h =
     (let dest = (case dest of None \<Rightarrow> this | Some d \<Rightarrow> d);
          h = Vector2_set_x dest (Vector2_x this h * Vector2_x vector h) h;
          h = Vector2_set_y dest (Vector2_y this h * Vector2_y vector h) h
      in (dest, h))"

section \<open>Example heaps\<close>

text \<open>
  A small heap on which the statements of the first level are run: \<open>heap_A\<close> holds the
  vectors \<open>(1, 2)\<close>, \<open>(3, 4)\<close> and \<open>(1, 2, 3)\<close>, \<open>(4, 5, 6)\<close>.
\<close>

definition heap_A :: heap where
  "heap_A =
     \<lparr>vector2s = [\<lparr>v2x = 1, v2y = 2\<rparr>, \<lparr>v2x = 3, v2y = 4\<rparr>],
      vector3s = [\<lparr>v3x = 1, v3y = 2, v3z = 3\<rparr>, \<lparr>v3x = 4, v3y = 5, v3z = 6\<rparr>]\<rparr>"

section \<open>IEEE arithmetic\<close>

text \<open>
  What \<open>normalize\<close>, \<open>direction\<close> and \<open>lerp\<close> return depends on rounding, on overflow and
  on \<open>NaN\<close>, so for them a \<open>number\<close> is a binary64 value: a finite real, one of the two
  infinities, or \<open>NaN\<close>. The two zeros are the one value \<open>Fin 0\<close>: the operations below
  never divide by a zero (both guard the reciprocal with \<open>length === 0\<close>), and \<open>===\<close> does
  not tell \<open>-0\<close> from \<open>0\<close>; results are stated up to the sign of a zero.
\<close>

datatype number = Fin real | PInf | NInf | NaN

text \<open>
  Rounding to nearest, ties to even. \<open>round_half_even\<close> rounds a real to an integer.
  In the format with \<open>p\<close> bits of precision and exponents from \<open>emin\<close> to \<open>emax\<close>, the
  neighbours of \<open>x\<close> are the multiples of \<open>2\<close> to the power \<open>ulp_exponent p emin x\<close> (the
  exponent of \<open>x\<close>, or \<open>emin\<close> for a subnormal, less \<open>p - 1\<close>), and \<open>round_grid\<close> is the
  nearest of them. \<open>round_to\<close> is the rounding of the format: a result whose magnitude
  reaches \<open>2\<close> to the power \<open>emax + 1\<close> overflows to the infinity of its sign.
  \<open>round64\<close> is binary64 and \<open>round32\<close> is binary32.
\<close>

definition round_half_even :: "real \<Rightarrow> int" where
  "round_half_even x =
     (let n = \<lfloor>x\<rfloor>
      in if x - of_int n < 1 / 2 then n
         else if 1 / 2 < x - of_int n then n + 1
         else if even n then n else n + 1)"

definition ulp_exponent :: "nat \<Rightarrow> int \<Rightarrow> real \<Rightarrow> int" where
  "ulp_exponent p emin x = max \<lfloor>log 2 \<bar>x\<bar>\<rfloor> emin - (int p - 1)"

definition round_grid :: "nat \<Rightarrow> int \<Rightarrow> real \<Rightarrow> real" where
  "round_grid p emin x =
     of_int (round_half_even (x / 2 powr of_int (ulp_exponent p emin x))) *
     2 powr of_int (ulp_exponent p emin x)"

definition round_to :: "nat \<Rightarrow> int \<Rightarrow> int \<Rightarrow> real \<Rightarrow> number" where
  "round_to p emin emax x =
     (if x = 0 then Fin 0
      else if 2 powr of_int (emax + 1) \<le> \<bar>round_grid p emin x\<bar>
        then (if 0 < x then PInf else NInf)
        else Fin (round_grid p emin x))"

definition round64 :: "real \<Rightarrow> number" where
  "round64 = round_to 53 (- 1022) 1023"

definition round32 :: "real \<Rightarrow> number" where
  "round32 = round_to 24 (- 126) 127"

text \<open>
  The operators \<open>-x\<close>, \<open>+\<close>, \<open>-\<close>, \<open>*\<close>, \<open>/\<close> of the language on numbers: the exact result
  of two finite operands is rounded to binary64, and the special values follow
  IEEE 754 (\<open>Infinity - Infinity\<close>, \<open>0 * Infinity\<close>, \<open>0 / 0\<close> and \<open>Infinity / Infinity\<close>
  are \<open>NaN\<close>; a division by zero is by \<open>+0\<close>). \<open>Math.sqrt\<close> is taken to be correctly
  rounded, as the square root of IEEE 754 is.
\<close>

fun js_neg :: "number \<Rightarrow> number" where
  "js_neg (Fin x) = Fin (- x)"
| "js_neg PInf = NInf"
| "js_neg NInf = PInf"
| "js_neg NaN = NaN"

fun js_add :: "number \<Rightarrow> number \<Rightarrow> number" where
  "js_add (Fin x) (Fin y) = round64 (x + y)"
| "js_add NaN b = NaN"
| "js_add a NaN = NaN"
| "js_add PInf NInf = NaN"
| "js_add NInf PInf = NaN"
| "js_add PInf b = PInf"
| "js_add a PInf = PInf"
| "js_add NInf b = NInf"
| "js_add a NInf = NInf"

definition js_sub :: "number \<Rightarrow> number \<Rightarrow> number" where
  "js_sub a b = js_add a (js_neg b)"

fun js_mul :: "number \<Rightarrow> number \<Rightarrow> number" where
  "js_mul (Fin x) (Fin y) = round64 (x * y)"
| "js_mul NaN b = NaN"
| "js_mul a NaN = NaN"
| "js_mul PInf (Fin y) = (if y = 0 then NaN else if 0 < y then PInf else NInf)"
| "js_mul NInf (Fin y) = (if y = 0 then NaN else if 0 < y then NInf else PInf)"
| "js_mul (Fin x) PInf = (if x = 0 then NaN else if 0 < x then PInf else NInf)"
| "js_mul (Fin x) NInf = (if x = 0 then NaN else if 0 < x then NInf else PInf)"
| "js_mul PInf PInf = PInf"
| "js_mul PInf NInf = NInf"
| "js_mul NInf PInf = NInf"
| "js_mul NInf NInf = PInf"



text \<open>
  \<open>fround\<close> is the narrowing of a number on a store into a \<open>Float32Array\<close>
  (\<open>Math.fround\<close>). A number is a float32 value when the narrowing leaves it as it is,
  and \<open>grid32\<close> is what that says of a finite real: it is zero, or its magnitude is at
  least the least subnormal and below \<open>2\<close> to the power \<open>128\<close>.
\<close>

fun fround :: "number \<Rightarrow> number" where
  "fround (Fin x) = round32 x"
| "fround PInf = PInf"
| "fround NInf = NInf"
| "fround NaN = NaN"

definition is_float32 :: "number \<Rightarrow> bool" where
  "is_float32 c \<longleftrightarrow> fround c = c"



section \<open>Vectors of float32 components\<close>

text \<open>
  On this heap a slot holds the number that was stored, so every setter narrows and
  every getter returns the slot as it is (a float32 value is a binary64 value).
  References, destinations and the order of the statements are as on the first heap.
  What the first level also has (the types, the accessors, the constructors and
  \<open>difference\<close>) carries the suffix \<open>_f32\<close> here.
\<close>

record Vector2_f32 =
  f2x :: number
  f2y :: number

record Vector3_f32 =
  f3x :: number
  f3y :: number
  f3z :: number

record heap_f32 =
  vector2s_f32 :: "Vector2_f32 list"
  vector3s_f32 :: "Vector3_f32 list"

text \<open>
  An array read: an index past the end gives \<open>undefined\<close>, which a store into the buffer
  turns into \<open>NaN\<close>.
\<close>

definition js_index :: "number list \<Rightarrow> nat \<Rightarrow> number" where
  "js_index vs i = (if i < length vs then vs ! i else NaN)"

subsection \<open>Vector3\<close>

definition Vector3_x_f32 :: "ref \<Rightarrow> heap_f32 \<Rightarrow> number" where
  "Vector3_x_f32 this h = f3x (vector3s_f32 h ! this)"

definition Vector3_y_f32 :: "ref \<Rightarrow> heap_f32 \<Rightarrow> number" where
  "Vector3_y_f32 this h = f3y (vector3s_f32 h ! this)"

definition Vector3_z_f32 :: "ref \<Rightarrow> heap_f32 \<Rightarrow> number" where
  "Vector3_z_f32 this h = f3z (vector3s_f32 h ! this)"

definition Vector3_xyz_f32 :: "ref \<Rightarrow> heap_f32 \<Rightarrow> number list" where
  "Vector3_xyz_f32 this h =
     [f3x (vector3s_f32 h ! this), f3y (vector3s_f32 h ! this), f3z (vector3s_f32 h ! this)]"

definition Vector3_set_x_f32 :: "ref \<Rightarrow> number \<Rightarrow> heap_f32 \<Rightarrow> heap_f32" where
  "Vector3_set_x_f32 this v h =
     h\<lparr>vector3s_f32 := (vector3s_f32 h)[this := (vector3s_f32 h ! this)\<lparr>f3x := fround v\<rparr>]\<rparr>"

definition Vector3_set_y_f32 :: "ref \<Rightarrow> number \<Rightarrow> heap_f32 \<Rightarrow> heap_f32" where
  "Vector3_set_y_f32 this v h =
     h\<lparr>vector3s_f32 := (vector3s_f32 h)[this := (vector3s_f32 h ! this)\<lparr>f3y := fround v\<rparr>]\<rparr>"

definition Vector3_set_z_f32 :: "ref \<Rightarrow> number \<Rightarrow> heap_f32 \<Rightarrow> heap_f32" where
  "Vector3_set_z_f32 this v h =
     h\<lparr>vector3s_f32 := (vector3s_f32 h)[this := (vector3s_f32 h ! this)\<lparr>f3z := fround v\<rparr>]\<rparr>"

definition Vector3_set_xyz_f32 :: "ref \<Rightarrow> number list \<Rightarrow> heap_f32 \<Rightarrow> heap_f32" where
  "Vector3_set_xyz_f32 this vs h =
     h\<lparr>vector3s_f32 := (vector3s_f32 h)
        [this := (vector3s_f32 h ! this)
           \<lparr>f3x := fround (js_index vs 0), f3y := fround (js_index vs 1),
            f3z := fround (js_index vs 2)\<rparr>]\<rparr>"

text \<open>
  \<open>new Vector3(p1, p2, p3)\<close>, as on the first heap: an omitted argument is
  \<open>JSUndefined_f32\<close>, \<open>Number\<close> turns it and an array of two or more numbers into \<open>NaN\<close>,
  and \<open>n || 0\<close> replaces \<open>NaN\<close> and \<open>0\<close> by \<open>0\<close>.
\<close>

datatype jsvalue_f32 = JSUndefined_f32 | JSNumber_f32 number | JSArray_f32 "number list"

fun Number_f32 :: "jsvalue_f32 \<Rightarrow> number" where
  "Number_f32 JSUndefined_f32 = NaN"
| "Number_f32 (JSNumber_f32 v) = v"
| "Number_f32 (JSArray_f32 []) = Fin 0"
| "Number_f32 (JSArray_f32 [v]) = v"
| "Number_f32 (JSArray_f32 (v # w # vs)) = NaN"

definition number_or_zero :: "number \<Rightarrow> number" where
  "number_or_zero n = (if n = NaN \<or> n = Fin 0 then Fin 0 else n)"

definition Vector3_new_f32 ::
  "jsvalue_f32 \<Rightarrow> jsvalue_f32 \<Rightarrow> jsvalue_f32 \<Rightarrow> heap_f32 \<Rightarrow> ref \<times> heap_f32" where
  "Vector3_new_f32 p1 p2 p3 h =
     (let this = length (vector3s_f32 h);
          h = h\<lparr>vector3s_f32 := vector3s_f32 h @ [\<lparr>f3x = Fin 0, f3y = Fin 0, f3z = Fin 0\<rparr>]\<rparr>
      in (this,
          case p1 of
            JSArray_f32 vs \<Rightarrow>
              (if length vs > 3 then Vector3_set_xyz_f32 this vs h
               else Vector3_set_xyz_f32 this
                      [number_or_zero (Number_f32 p1), number_or_zero (Number_f32 p2),
                       number_or_zero (Number_f32 p3)] h)
          | _ \<Rightarrow> Vector3_set_xyz_f32 this
                   [number_or_zero (Number_f32 p1), number_or_zero (Number_f32 p2),
                    number_or_zero (Number_f32 p3)] h))"



definition Vector3_lerp ::
  "ref \<Rightarrow> ref \<Rightarrow> number \<Rightarrow> ref option \<Rightarrow> heap_f32 \<Rightarrow> ref \<times> heap_f32" where
  "Vector3_lerp a b t dest h =
     (case (case dest of None \<Rightarrow> Vector3_new_f32 JSUndefined_f32 JSUndefined_f32 JSUndefined_f32 h | Some d \<Rightarrow> (d, h)) of
        (dest, h) \<Rightarrow>
          let h = Vector3_set_x_f32 dest
                (js_add (Vector3_x_f32 a h) (js_mul t (js_sub (Vector3_x_f32 b h) (Vector3_x_f32 a h)))) h;
              h = Vector3_set_y_f32 dest
                (js_add (Vector3_y_f32 a h) (js_mul t (js_sub (Vector3_y_f32 b h) (Vector3_y_f32 a h)))) h;
              h = Vector3_set_z_f32 dest
                (js_add (Vector3_z_f32 a h) (js_mul t (js_sub (Vector3_z_f32 b h) (Vector3_z_f32 a h)))) h
          in (dest, h))"





subsection \<open>Vector2\<close>

text \<open>
  \<open>new Vector2(values)\<close>, with \<open>None\<close> for the omitted array, and the same operations in
  two dimensions. \<open>Vector2.reset\<close> stores through the setters of \<open>x\<close> and \<open>y\<close>, and
  \<open>Vector2.direction\<close> calls it where \<open>Vector3.direction\<close> stores three zeros.
\<close>

definition Vector2_x_f32 :: "ref \<Rightarrow> heap_f32 \<Rightarrow> number" where
  "Vector2_x_f32 this h = f2x (vector2s_f32 h ! this)"

definition Vector2_y_f32 :: "ref \<Rightarrow> heap_f32 \<Rightarrow> number" where
  "Vector2_y_f32 this h = f2y (vector2s_f32 h ! this)"

definition Vector2_xy_f32 :: "ref \<Rightarrow> heap_f32 \<Rightarrow> number list" where
  "Vector2_xy_f32 this h = [f2x (vector2s_f32 h ! this), f2y (vector2s_f32 h ! this)]"

definition Vector2_set_x_f32 :: "ref \<Rightarrow> number \<Rightarrow> heap_f32 \<Rightarrow> heap_f32" where
  "Vector2_set_x_f32 this v h =
     h\<lparr>vector2s_f32 := (vector2s_f32 h)[this := (vector2s_f32 h ! this)\<lparr>f2x := fround v\<rparr>]\<rparr>"

definition Vector2_set_y_f32 :: "ref \<Rightarrow> number \<Rightarrow> heap_f32 \<Rightarrow> heap_f32" where
  "Vector2_set_y_f32 this v h =
     h\<lparr>vector2s_f32 := (vector2s_f32 h)[this := (vector2s_f32 h ! this)\<lparr>f2y := fround v\<rparr>]\<rparr>"

definition Vector2_set_xy_f32 :: "ref \<Rightarrow> number list \<Rightarrow> heap_f32 \<Rightarrow> heap_f32" where
  "Vector2_set_xy_f32 this vs h =
     h\<lparr>vector2s_f32 := (vector2s_f32 h)
        [this := (vector2s_f32 h ! this)
           \<lparr>f2x := fround (js_index vs 0), f2y := fround (js_index vs 1)\<rparr>]\<rparr>"

definition Vector2_new_f32 :: "number list option \<Rightarrow> heap_f32 \<Rightarrow> ref \<times> heap_f32" where
  "Vector2_new_f32 values h =
     (let this = length (vector2s_f32 h);
          h = h\<lparr>vector2s_f32 := vector2s_f32 h @ [\<lparr>f2x = Fin 0, f2y = Fin 0\<rparr>]\<rparr>
      in (this, case values of
                  Some vs \<Rightarrow> Vector2_set_xy_f32 this vs h
                | None \<Rightarrow> Vector2_set_xy_f32 this [Fin 0, Fin 0] h))"




definition Vector2_lerp ::
  "ref \<Rightarrow> ref \<Rightarrow> number \<Rightarrow> ref option \<Rightarrow> heap_f32 \<Rightarrow> ref \<times> heap_f32" where
  "Vector2_lerp a b t dest h =
     (case (case dest of None \<Rightarrow> Vector2_new_f32 None h | Some d \<Rightarrow> (d, h)) of
        (dest, h) \<Rightarrow>
          let h = Vector2_set_x_f32 dest
                (js_add (Vector2_x_f32 a h) (js_mul t (js_sub (Vector2_x_f32 b h) (Vector2_x_f32 a h)))) h;
              h = Vector2_set_y_f32 dest
                (js_add (Vector2_y_f32 a h) (js_mul t (js_sub (Vector2_y_f32 b h) (Vector2_y_f32 a h)))) h
          in (dest, h))"






text \<open>
  A heap of float32 vectors on which the statements of the second level are run. In each
  dimension it holds a vector of length 5, the zero vector, a unit vector, and two more
  vectors to interpolate between.
\<close>

definition heap_F :: heap_f32 where
  "heap_F = \<lparr>vector2s_f32 = [\<lparr>f2x = Fin 3, f2y = Fin 4\<rparr>, \<lparr>f2x = Fin 0, f2y = Fin 0\<rparr>,
                                \<lparr>f2x = Fin 1, f2y = Fin 0\<rparr>, \<lparr>f2x = Fin 1, f2y = Fin 2\<rparr>,
                                \<lparr>f2x = Fin 3, f2y = Fin 4\<rparr>],
             vector3s_f32 = [\<lparr>f3x = Fin 3, f3y = Fin 0, f3z = Fin 4\<rparr>,
                             \<lparr>f3x = Fin 0, f3y = Fin 0, f3z = Fin 0\<rparr>,
                             \<lparr>f3x = Fin 1, f3y = Fin 0, f3z = Fin 0\<rparr>,
                             \<lparr>f3x = Fin 1, f3y = Fin 2, f3z = Fin 3\<rparr>,
                             \<lparr>f3x = Fin 3, f3y = Fin 4, f3z = Fin 5\<rparr>]\<rparr>"

section \<open>Slots of a record\<close>

lemmas Vector3_slots = Vector3_x_def Vector3_y_def Vector3_z_def Vector3_xyz_def
  Vector3_set_x_def Vector3_set_y_def Vector3_set_z_def Vector3_set_xyz_def

lemmas Vector2_slots = Vector2_x_def Vector2_y_def Vector2_xy_def
  Vector2_set_x_def Vector2_set_y_def Vector2_set_xy_def

lemma Vector3_update_all:
  "(r::Vector3)\<lparr>v3x := a, v3y := b, v3z := c\<rparr> = \<lparr>v3x = a, v3y = b, v3z = c\<rparr>"
  by (cases r) simp

lemma Vector3_eta: "\<lparr>v3x = v3x r, v3y = v3y r, v3z = v3z r\<rparr> = (r::Vector3)"
  by (cases r) simp

lemma Vector2_update_all:
  "(r::Vector2)\<lparr>v2x := a, v2y := b\<rparr> = \<lparr>v2x = a, v2y = b\<rparr>"
  by (cases r) simp

lemma Vector2_eta: "\<lparr>v2x = v2x r, v2y = v2y r\<rparr> = (r::Vector2)"
  by (cases r) simp

text \<open>\<open>new Vector3()\<close> and \<open>new Vector2()\<close> append a zero vector.\<close>

lemma Vector3_new_default:
  "Vector3_new JSUndefined JSUndefined JSUndefined h =
     (length (vector3s h), h\<lparr>vector3s := vector3s h @ [\<lparr>v3x = 0, v3y = 0, v3z = 0\<rparr>]\<rparr>)"
  by (simp add: Vector3_new_def Vector3_set_xyz_def or_zero_def Let_def Vector3_update_all)

lemma Vector2_new_default:
  "Vector2_new None h =
     (length (vector2s h), h\<lparr>vector2s := vector2s h @ [\<lparr>v2x = 0, v2y = 0\<rparr>]\<rparr>)"
  by (simp add: Vector2_new_def Vector2_set_xy_def Let_def Vector2_update_all)

section \<open>What each operation leaves on the heap\<close>

text \<open>
  For live operands (and a live destination, when one is passed) each operation is
  one write of one instance: an update of the destination, or a fresh instance appended.
  The components written are computed from the values the operands had before the call,
  also when the destination is one of the operands.
\<close>

subsection \<open>Sums, differences and products\<close>

lemma Vector3_sum_Some:
  assumes "a < length (vector3s h)" and "b < length (vector3s h)" and "d < length (vector3s h)"
  shows "Vector3_sum a b (Some d) h =
     (d, h\<lparr>vector3s := (vector3s h)[d :=
        \<lparr>v3x = Vector3_x a h + Vector3_x b h, v3y = Vector3_y a h + Vector3_y b h,
         v3z = Vector3_z a h + Vector3_z b h\<rparr>]\<rparr>)"
  using assms
  by (simp add: Vector3_sum_def Vector3_slots Let_def nth_list_update Vector3_update_all)

lemma Vector3_sum_None:
  assumes "a < length (vector3s h)" and "b < length (vector3s h)"
  shows "Vector3_sum a b None h =
     (length (vector3s h), h\<lparr>vector3s := vector3s h @
        [\<lparr>v3x = Vector3_x a h + Vector3_x b h, v3y = Vector3_y a h + Vector3_y b h,
         v3z = Vector3_z a h + Vector3_z b h\<rparr>]\<rparr>)"
  using assms
  by (simp add: Vector3_sum_def Vector3_new_default Vector3_slots Let_def nth_append Vector3_update_all)

lemma Vector3_add_Some:
  assumes "a < length (vector3s h)" and "b < length (vector3s h)" and "d < length (vector3s h)"
  shows "Vector3_add a b (Some d) h =
     (d, h\<lparr>vector3s := (vector3s h)[d :=
        \<lparr>v3x = Vector3_x a h + Vector3_x b h, v3y = Vector3_y a h + Vector3_y b h,
         v3z = Vector3_z a h + Vector3_z b h\<rparr>]\<rparr>)"
  using assms
  by (simp add: Vector3_add_def Vector3_slots Let_def nth_list_update Vector3_update_all)

lemma Vector3_add_None:
  assumes "a < length (vector3s h)" and "b < length (vector3s h)"
  shows "Vector3_add a b None h =
     (a, h\<lparr>vector3s := (vector3s h)[a :=
        \<lparr>v3x = Vector3_x a h + Vector3_x b h, v3y = Vector3_y a h + Vector3_y b h,
         v3z = Vector3_z a h + Vector3_z b h\<rparr>]\<rparr>)"
  using assms
  by (simp add: Vector3_add_def Vector3_slots Let_def nth_list_update Vector3_update_all)

lemma Vector3_difference_Some:
  assumes "a < length (vector3s h)" and "b < length (vector3s h)" and "d < length (vector3s h)"
  shows "Vector3_difference a b (Some d) h =
     (d, h\<lparr>vector3s := (vector3s h)[d :=
        \<lparr>v3x = Vector3_x a h - Vector3_x b h, v3y = Vector3_y a h - Vector3_y b h,
         v3z = Vector3_z a h - Vector3_z b h\<rparr>]\<rparr>)"
  using assms
  by (simp add: Vector3_difference_def Vector3_slots Let_def nth_list_update Vector3_update_all)

lemma Vector3_difference_None:
  assumes "a < length (vector3s h)" and "b < length (vector3s h)"
  shows "Vector3_difference a b None h =
     (length (vector3s h), h\<lparr>vector3s := vector3s h @
        [\<lparr>v3x = Vector3_x a h - Vector3_x b h, v3y = Vector3_y a h - Vector3_y b h,
         v3z = Vector3_z a h - Vector3_z b h\<rparr>]\<rparr>)"
  using assms
  by (simp add: Vector3_difference_def Vector3_new_default Vector3_slots Let_def nth_append Vector3_update_all)

lemma Vector3_subtract_Some:
  assumes "a < length (vector3s h)" and "b < length (vector3s h)" and "d < length (vector3s h)"
  shows "Vector3_subtract a b (Some d) h =
     (d, h\<lparr>vector3s := (vector3s h)[d :=
        \<lparr>v3x = Vector3_x a h - Vector3_x b h, v3y = Vector3_y a h - Vector3_y b h,
         v3z = Vector3_z a h - Vector3_z b h\<rparr>]\<rparr>)"
  using assms
  by (simp add: Vector3_subtract_def Vector3_slots Let_def nth_list_update Vector3_update_all)

lemma Vector3_subtract_None:
  assumes "a < length (vector3s h)" and "b < length (vector3s h)"
  shows "Vector3_subtract a b None h =
     (a, h\<lparr>vector3s := (vector3s h)[a :=
        \<lparr>v3x = Vector3_x a h - Vector3_x b h, v3y = Vector3_y a h - Vector3_y b h,
         v3z = Vector3_z a h - Vector3_z b h\<rparr>]\<rparr>)"
  using assms
  by (simp add: Vector3_subtract_def Vector3_slots Let_def nth_list_update Vector3_update_all)

lemma Vector3_product_Some:
  assumes "a < length (vector3s h)" and "b < length (vector3s h)" and "d < length (vector3s h)"
  shows "Vector3_product a b (Some d) h =
     (d, h\<lparr>vector3s := (vector3s h)[d :=
        \<lparr>v3x = Vector3_x a h * Vector3_x b h, v3y = Vector3_y a h * Vector3_y b h,
         v3z = Vector3_z a h * Vector3_z b h\<rparr>]\<rparr>)"
  using assms
  by (simp add: Vector3_product_def Vector3_slots Let_def nth_list_update Vector3_update_all)

lemma Vector3_product_None:
  assumes "a < length (vector3s h)" and "b < length (vector3s h)"
  shows "Vector3_product a b None h =
     (length (vector3s h), h\<lparr>vector3s := vector3s h @
        [\<lparr>v3x = Vector3_x a h * Vector3_x b h, v3y = Vector3_y a h * Vector3_y b h,
         v3z = Vector3_z a h * Vector3_z b h\<rparr>]\<rparr>)"
  using assms
  by (simp add: Vector3_product_def Vector3_new_default Vector3_slots Let_def nth_append Vector3_update_all)

lemma Vector3_multiply_Some:
  assumes "a < length (vector3s h)" and "b < length (vector3s h)" and "d < length (vector3s h)"
  shows "Vector3_multiply a b (Some d) h =
     (d, h\<lparr>vector3s := (vector3s h)[d :=
        \<lparr>v3x = Vector3_x a h * Vector3_x b h, v3y = Vector3_y a h * Vector3_y b h,
         v3z = Vector3_z a h * Vector3_z b h\<rparr>]\<rparr>)"
  using assms
  by (simp add: Vector3_multiply_def Vector3_slots Let_def nth_list_update Vector3_update_all)

lemma Vector3_multiply_None:
  assumes "a < length (vector3s h)" and "b < length (vector3s h)"
  shows "Vector3_multiply a b None h =
     (a, h\<lparr>vector3s := (vector3s h)[a :=
        \<lparr>v3x = Vector3_x a h * Vector3_x b h, v3y = Vector3_y a h * Vector3_y b h,
         v3z = Vector3_z a h * Vector3_z b h\<rparr>]\<rparr>)"
  using assms
  by (simp add: Vector3_multiply_def Vector3_slots Let_def nth_list_update Vector3_update_all)

lemma Vector2_sum_Some:
  assumes "a < length (vector2s h)" and "b < length (vector2s h)" and "d < length (vector2s h)"
  shows "Vector2_sum a b (Some d) h =
     (d, h\<lparr>vector2s := (vector2s h)[d :=
        \<lparr>v2x = Vector2_x a h + Vector2_x b h, v2y = Vector2_y a h + Vector2_y b h\<rparr>]\<rparr>)"
  using assms
  by (simp add: Vector2_sum_def Vector2_slots Let_def nth_list_update Vector2_update_all)

lemma Vector2_sum_None:
  assumes "a < length (vector2s h)" and "b < length (vector2s h)"
  shows "Vector2_sum a b None h =
     (length (vector2s h), h\<lparr>vector2s := vector2s h @
        [\<lparr>v2x = Vector2_x a h + Vector2_x b h, v2y = Vector2_y a h + Vector2_y b h\<rparr>]\<rparr>)"
  using assms
  by (simp add: Vector2_sum_def Vector2_new_default Vector2_slots Let_def nth_append Vector2_update_all)

lemma Vector2_add_Some:
  assumes "a < length (vector2s h)" and "b < length (vector2s h)" and "d < length (vector2s h)"
  shows "Vector2_add a b (Some d) h =
     (d, h\<lparr>vector2s := (vector2s h)[d :=
        \<lparr>v2x = Vector2_x a h + Vector2_x b h, v2y = Vector2_y a h + Vector2_y b h\<rparr>]\<rparr>)"
  using assms
  by (simp add: Vector2_add_def Vector2_slots Let_def nth_list_update Vector2_update_all)

lemma Vector2_add_None:
  assumes "a < length (vector2s h)" and "b < length (vector2s h)"
  shows "Vector2_add a b None h =
     (a, h\<lparr>vector2s := (vector2s h)[a :=
        \<lparr>v2x = Vector2_x a h + Vector2_x b h, v2y = Vector2_y a h + Vector2_y b h\<rparr>]\<rparr>)"
  using assms
  by (simp add: Vector2_add_def Vector2_slots Let_def nth_list_update Vector2_update_all)

lemma Vector2_difference_Some:
  assumes "a < length (vector2s h)" and "b < length (vector2s h)" and "d < length (vector2s h)"
  shows "Vector2_difference a b (Some d) h =
     (d, h\<lparr>vector2s := (vector2s h)[d :=
        \<lparr>v2x = Vector2_x a h - Vector2_x b h, v2y = Vector2_y a h - Vector2_y b h\<rparr>]\<rparr>)"
  using assms
  by (simp add: Vector2_difference_def Vector2_slots Let_def nth_list_update Vector2_update_all)

lemma Vector2_difference_None:
  assumes "a < length (vector2s h)" and "b < length (vector2s h)"
  shows "Vector2_difference a b None h =
     (length (vector2s h), h\<lparr>vector2s := vector2s h @
        [\<lparr>v2x = Vector2_x a h - Vector2_x b h, v2y = Vector2_y a h - Vector2_y b h\<rparr>]\<rparr>)"
  using assms
  by (simp add: Vector2_difference_def Vector2_new_default Vector2_slots Let_def nth_append Vector2_update_all)

lemma Vector2_subtract_Some:
  assumes "a < length (vector2s h)" and "b < length (vector2s h)" and "d < length (vector2s h)"
  shows "Vector2_subtract a b (Some d) h =
     (d, h\<lparr>vector2s := (vector2s h)[d :=
        \<lparr>v2x = Vector2_x a h - Vector2_x b h, v2y = Vector2_y a h - Vector2_y b h\<rparr>]\<rparr>)"
  using assms
  by (simp add: Vector2_subtract_def Vector2_slots Let_def nth_list_update Vector2_update_all)

lemma Vector2_subtract_None:
  assumes "a < length (vector2s h)" and "b < length (vector2s h)"
  shows "Vector2_subtract a b None h =
     (a, h\<lparr>vector2s := (vector2s h)[a :=
        \<lparr>v2x = Vector2_x a h - Vector2_x b h, v2y = Vector2_y a h - Vector2_y b h\<rparr>]\<rparr>)"
  using assms
  by (simp add: Vector2_subtract_def Vector2_slots Let_def nth_list_update Vector2_update_all)

lemma Vector2_product_Some:
  assumes "a < length (vector2s h)" and "b < length (vector2s h)" and "d < length (vector2s h)"
  shows "Vector2_product a b (Some d) h =
     (d, h\<lparr>vector2s := (vector2s h)[d :=
        \<lparr>v2x = Vector2_x a h * Vector2_x b h, v2y = Vector2_y a h * Vector2_y b h\<rparr>]\<rparr>)"
  using assms
  by (simp add: Vector2_product_def Vector2_slots Let_def nth_list_update Vector2_update_all)

lemma Vector2_product_None:
  assumes "a < length (vector2s h)" and "b < length (vector2s h)"
  shows "Vector2_product a b None h =
     (length (vector2s h), h\<lparr>vector2s := vector2s h @
        [\<lparr>v2x = Vector2_x a h * Vector2_x b h, v2y = Vector2_y a h * Vector2_y b h\<rparr>]\<rparr>)"
  using assms
  by (simp add: Vector2_product_def Vector2_new_default Vector2_slots Let_def nth_append Vector2_update_all)

lemma Vector2_multiply_Some:
  assumes "a < length (vector2s h)" and "b < length (vector2s h)" and "d < length (vector2s h)"
  shows "Vector2_multiply a b (Some d) h =
     (d, h\<lparr>vector2s := (vector2s h)[d :=
        \<lparr>v2x = Vector2_x a h * Vector2_x b h, v2y = Vector2_y a h * Vector2_y b h\<rparr>]\<rparr>)"
  using assms
  by (simp add: Vector2_multiply_def Vector2_slots Let_def nth_list_update Vector2_update_all)

lemma Vector2_multiply_None:
  assumes "a < length (vector2s h)" and "b < length (vector2s h)"
  shows "Vector2_multiply a b None h =
     (a, h\<lparr>vector2s := (vector2s h)[a :=
        \<lparr>v2x = Vector2_x a h * Vector2_x b h, v2y = Vector2_y a h * Vector2_y b h\<rparr>]\<rparr>)"
  using assms
  by (simp add: Vector2_multiply_def Vector2_slots Let_def nth_list_update Vector2_update_all)

subsection \<open>Cross products\<close>

lemma Vector3_cross_Some:
  assumes "a < length (vector3s h)" and "b < length (vector3s h)" and "d < length (vector3s h)"
  shows "Vector3_cross a b (Some d) h =
     (d, h\<lparr>vector3s := (vector3s h)[d :=
        \<lparr>v3x = Vector3_y a h * Vector3_z b h - Vector3_z a h * Vector3_y b h,
         v3y = Vector3_z a h * Vector3_x b h - Vector3_x a h * Vector3_z b h,
         v3z = Vector3_x a h * Vector3_y b h - Vector3_y a h * Vector3_x b h\<rparr>]\<rparr>)"
  using assms
  by (simp add: Vector3_cross_def Vector3_slots Let_def nth_list_update Vector3_update_all)

lemma Vector3_cross_None:
  assumes "a < length (vector3s h)" and "b < length (vector3s h)"
  shows "Vector3_cross a b None h =
     (length (vector3s h), h\<lparr>vector3s := vector3s h @
        [\<lparr>v3x = Vector3_y a h * Vector3_z b h - Vector3_z a h * Vector3_y b h,
          v3y = Vector3_z a h * Vector3_x b h - Vector3_x a h * Vector3_z b h,
          v3z = Vector3_x a h * Vector3_y b h - Vector3_y a h * Vector3_x b h\<rparr>]\<rparr>)"
  using assms
  by (simp add: Vector3_cross_def Vector3_new_default Vector3_slots Let_def nth_append
      Vector3_update_all)

lemma Vector2_cross_Some:
  assumes "d < length (vector3s h)"
  shows "Vector2_cross a b (Some d) h =
     (d, h\<lparr>vector3s := (vector3s h)[d :=
        \<lparr>v3x = 0, v3y = 0,
         v3z = Vector2_x a h * Vector2_y b h - Vector2_y a h * Vector2_x b h\<rparr>]\<rparr>)"
  using assms
  by (simp add: Vector2_cross_def Vector3_slots Vector2_slots Let_def Vector3_update_all)

lemma Vector2_cross_None:
  "Vector2_cross a b None h =
     (length (vector3s h), h\<lparr>vector3s := vector3s h @
        [\<lparr>v3x = 0, v3y = 0,
          v3z = Vector2_x a h * Vector2_y b h - Vector2_y a h * Vector2_x b h\<rparr>]\<rparr>)"
  by (simp add: Vector2_cross_def Vector3_new_default Vector3_slots Vector2_slots Let_def
      Vector3_update_all)

subsection \<open>The example heaps\<close>

lemma heap_A_live: "length (vector3s heap_A) = 2" "length (vector2s heap_A) = 2"
  by (simp_all add: heap_A_def)

lemma heap_A_slots:
  "Vector3_x 0 heap_A = 1" "Vector3_y 0 heap_A = 2" "Vector3_z 0 heap_A = 3"
  "Vector3_x (Suc 0) heap_A = 4" "Vector3_y (Suc 0) heap_A = 5" "Vector3_z (Suc 0) heap_A = 6"
  "Vector2_x 0 heap_A = 1" "Vector2_y 0 heap_A = 2"
  "Vector2_x (Suc 0) heap_A = 3" "Vector2_y (Suc 0) heap_A = 4"
  "vector3s heap_A ! 0 = \<lparr>v3x = 1, v3y = 2, v3z = 3\<rparr>"
  "vector3s heap_A ! Suc 0 = \<lparr>v3x = 4, v3y = 5, v3z = 6\<rparr>"
  "vector2s heap_A ! 0 = \<lparr>v2x = 1, v2y = 2\<rparr>"
  "vector2s heap_A ! Suc 0 = \<lparr>v2x = 3, v2y = 4\<rparr>"
  by (simp_all add: heap_A_def Vector3_slots Vector2_slots)

section \<open>Rounding to nearest\<close>

text \<open>
  The rounding of a format is within half a unit in the last place of its argument,
  leaves the values of the format as they are, and is relatively accurate to \<open>2\<close> to the
  power \<open>-p\<close> on the normal range. A binary32 value is a binary64 value.
\<close>

lemma round_half_even_near: "\<bar>of_int (round_half_even x) - x\<bar> \<le> 1 / 2"
  unfolding round_half_even_def Let_def by (auto; linarith)

lemma round_half_even_of_int [simp]: "round_half_even (of_int n) = n"
  by (simp add: round_half_even_def)

lemma round_half_even_unique:
  assumes "\<bar>x - of_int n\<bar> < 1 / 2"
  shows "round_half_even x = n"
proof -
  have "\<bar>of_int (round_half_even x) - x\<bar> \<le> 1 / 2" by (rule round_half_even_near)
  with assms have "\<bar>(of_int (round_half_even x) :: real) - of_int n\<bar> < 1" by linarith
  then have "\<bar>round_half_even x - n\<bar> < 1"
    by (metis of_int_diff of_int_abs of_int_less_1_iff)
  then show ?thesis by linarith
qed

lemma round_half_even_ge: "of_int n \<le> x \<Longrightarrow> n \<le> round_half_even x"
  unfolding round_half_even_def Let_def by (auto simp: le_floor_iff; linarith)

lemma round_half_even_le: "x \<le> of_int n \<Longrightarrow> round_half_even x \<le> n"
proof -
  assume a: "x \<le> of_int n"
  have "\<lfloor>x\<rfloor> \<le> n" using a by (simp add: floor_le_iff)
  show ?thesis
  proof (cases "x = of_int \<lfloor>x\<rfloor>")
    case True
    then have "round_half_even x = \<lfloor>x\<rfloor>" by (metis round_half_even_of_int)
    with \<open>\<lfloor>x\<rfloor> \<le> n\<close> show ?thesis by simp
  next
    case False
    have "of_int \<lfloor>x\<rfloor> \<le> x" by simp
    with False have "of_int \<lfloor>x\<rfloor> < x" by linarith
    with a have "(of_int \<lfloor>x\<rfloor> :: real) < of_int n" by linarith
    then have "\<lfloor>x\<rfloor> < n" by (simp only: of_int_less_iff)
    moreover have "round_half_even x \<le> \<lfloor>x\<rfloor> + 1"
      unfolding round_half_even_def Let_def by auto
    ultimately show ?thesis by linarith
  qed
qed

lemma round_half_even_abs_le:
  assumes "\<bar>x\<bar> \<le> of_int n"
  shows "\<bar>round_half_even x\<bar> \<le> n"
proof -
  have "x \<le> of_int n" "of_int (- n) \<le> x" using assms by auto
  then have "round_half_even x \<le> n" "- n \<le> round_half_even x"
    by (auto intro: round_half_even_le round_half_even_ge)
  then show ?thesis by linarith
qed

lemma exponent_bounds:
  assumes "x \<noteq> 0"
  shows "2 powr of_int \<lfloor>log 2 \<bar>x\<bar>\<rfloor> \<le> \<bar>x\<bar>" and "\<bar>x\<bar> < 2 powr of_int (\<lfloor>log 2 \<bar>x\<bar>\<rfloor> + 1)"
proof -
  have "0 < \<bar>x\<bar>" using assms by simp
  then have "2 powr of_int \<lfloor>log 2 \<bar>x\<bar>\<rfloor> \<le> \<bar>x\<bar> \<and> \<bar>x\<bar> < 2 powr (of_int \<lfloor>log 2 \<bar>x\<bar>\<rfloor> + 1)"
    using floor_log_eq_powr_iff [of "\<bar>x\<bar>" 2 "\<lfloor>log 2 \<bar>x\<bar>\<rfloor>"] by simp
  then show "2 powr of_int \<lfloor>log 2 \<bar>x\<bar>\<rfloor> \<le> \<bar>x\<bar>"
    and "\<bar>x\<bar> < 2 powr of_int (\<lfloor>log 2 \<bar>x\<bar>\<rfloor> + 1)"
    by simp_all
qed

lemma exponent_unique:
  assumes "2 powr of_int k \<le> \<bar>x\<bar>" and "\<bar>x\<bar> < 2 powr of_int (k + 1)"
  shows "\<lfloor>log 2 \<bar>x\<bar>\<rfloor> = k"
proof -
  have "0 < (2::real) powr of_int k" by simp
  with assms(1) have "0 < \<bar>x\<bar>" by linarith
  then show ?thesis
    using floor_log_eq_powr_iff [of "\<bar>x\<bar>" 2 k] assms by simp
qed

lemma two_powr_add: "(2::real) powr of_int (a + b) = 2 powr of_int a * 2 powr of_int b"
  by (simp add: powr_add)

lemma two_powr_nat: "(2::real) powr of_int (int p) = 2 ^ p"
  by (simp add: powr_realpow)

lemma two_powr_pred: "(2::real) powr of_int (q - 1) = 2 powr of_int q / 2"
  by (simp add: powr_diff)

lemma two_powr_mono: "a \<le> b \<Longrightarrow> (2::real) powr of_int a \<le> 2 powr of_int b"
  by simp


lemma scaled_mantissa_bound:
  assumes "\<bar>x\<bar> < 2 powr of_int (q + int p)"
  shows "\<bar>round_half_even (x / 2 powr of_int q)\<bar> \<le> 2 ^ p"
proof -
  let ?B = "(2::real) powr of_int q"
  have B: "0 < ?B" by simp
  have "\<bar>x\<bar> < ?B * 2 ^ p" using assms by (simp only: two_powr_add two_powr_nat)
  then have "\<bar>x\<bar> / ?B < 2 ^ p" using B by (simp add: field_simps)
  then have "\<bar>x / ?B\<bar> \<le> of_int (2 ^ p)" using B by simp
  then show ?thesis by (rule round_half_even_abs_le)
qed

lemma ulp_exponent_covers:
  assumes "x \<noteq> 0"
  shows "\<bar>x\<bar> < 2 powr of_int (ulp_exponent p emin x + int p)"
proof -
  have "\<bar>x\<bar> < 2 powr of_int (\<lfloor>log 2 \<bar>x\<bar>\<rfloor> + 1)" using assms by (rule exponent_bounds)
  also have "\<dots> \<le> 2 powr of_int (ulp_exponent p emin x + int p)"
    by (rule two_powr_mono) (simp add: ulp_exponent_def)
  finally show ?thesis .
qed


lemma round_grid_bound:
  assumes "x \<noteq> 0"
  shows "\<bar>round_grid p emin x\<bar> \<le> 2 powr of_int (ulp_exponent p emin x + int p)"
proof -
  let ?q = "ulp_exponent p emin x"
  let ?M = "round_half_even (x / 2 powr of_int ?q)"
  have "\<bar>?M\<bar> \<le> 2 ^ p"
    using ulp_exponent_covers [OF assms] by (rule scaled_mantissa_bound)
  then have "real_of_int \<bar>?M\<bar> \<le> real_of_int (2 ^ p)" by (simp only: of_int_le_iff)
  then have "\<bar>real_of_int ?M\<bar> \<le> 2 ^ p" by simp
  then have "\<bar>real_of_int ?M\<bar> * 2 powr of_int ?q \<le> 2 ^ p * 2 powr of_int ?q"
    by (rule mult_right_mono) simp
  moreover have "\<bar>round_grid p emin x\<bar> = \<bar>real_of_int ?M\<bar> * 2 powr of_int ?q"
    by (simp add: round_grid_def abs_mult)
  moreover have "2 ^ p * 2 powr of_int ?q = (2::real) powr of_int (?q + int p)"
    by (simp only: two_powr_add two_powr_nat mult.commute)
  ultimately show ?thesis by simp
qed

lemma round_to_finite:
  assumes "x \<noteq> 0" and "\<bar>x\<bar> < 2 powr of_int emax" and "emin < emax"
  shows "round_to p emin emax x = Fin (round_grid p emin x)"
proof -
  let ?e = "\<lfloor>log 2 \<bar>x\<bar>\<rfloor>"
  have "2 powr of_int ?e \<le> \<bar>x\<bar>" using assms(1) by (rule exponent_bounds)
  with assms(2) have "(2::real) powr of_int ?e < 2 powr of_int emax" by linarith
  then have e: "?e < emax" by simp
  have "\<bar>round_grid p emin x\<bar> \<le> 2 powr of_int (ulp_exponent p emin x + int p)"
    using assms(1) by (rule round_grid_bound)
  also have "\<dots> \<le> 2 powr of_int emax"
    by (rule two_powr_mono) (use e assms(3) in \<open>simp add: ulp_exponent_def\<close>)
  also have "\<dots> < 2 powr of_int (emax + 1)" by simp
  finally show ?thesis using assms(1) by (simp add: round_to_def)
qed

lemma round_to_zero [simp]: "round_to p emin emax 0 = Fin 0"
  by (simp add: round_to_def)

text \<open>A number on the grid of the format, below the overflow threshold, is not changed.\<close>

lemma round_grid_exact:
  assumes y: "y = of_int m * 2 powr of_int k" and m: "\<bar>m\<bar> < 2 ^ p"
    and k: "emin - (int p - 1) \<le> k" and nz: "y \<noteq> 0"
  shows "round_grid p emin y = y"
proof -
  define q where "q = ulp_exponent p emin y"
  have "2 powr of_int \<lfloor>log 2 \<bar>y\<bar>\<rfloor> \<le> \<bar>y\<bar>" using nz by (rule exponent_bounds)
  also have "\<bar>y\<bar> = real_of_int \<bar>m\<bar> * 2 powr of_int k" by (simp add: y abs_mult)
  also have "\<dots> < real_of_int (2 ^ p) * 2 powr of_int k"
  proof (rule mult_strict_right_mono)
    show "real_of_int \<bar>m\<bar> < real_of_int (2 ^ p)" using m by (simp only: of_int_less_iff)
  qed simp
  also have "\<dots> = 2 powr of_int (k + int p)"
  proof -
    have "real_of_int (2 ^ p) = 2 ^ p" by simp
    then show ?thesis by (simp only: two_powr_add two_powr_nat mult.commute)
  qed
  finally have "\<lfloor>log 2 \<bar>y\<bar>\<rfloor> < k + int p" by simp
  with k have qk: "q \<le> k" by (simp add: q_def ulp_exponent_def)
  then obtain d :: nat where d: "k = q + int d"
    by (metis zle_iff_zadd)
  have split: "of_int m * 2 powr of_int k = real_of_int (m * 2 ^ d) * 2 powr of_int q"
    by (simp add: d powr_add powr_realpow)
  have yq: "y = real_of_int (m * 2 ^ d) * 2 powr of_int q" unfolding y by (rule split)
  have "y / 2 powr of_int q = of_int (m * 2 ^ d)"
  proof -
    have "(2::real) powr of_int q \<noteq> 0" by simp
    then show ?thesis by (subst yq) simp
  qed
  then have "round_half_even (y / 2 powr of_int q) = m * 2 ^ d"
    by (simp only: round_half_even_of_int)
  then have "round_grid p emin y = of_int (m * 2 ^ d) * 2 powr of_int q"
    by (simp only: round_grid_def q_def)
  also have "\<dots> = y" by (rule yq [symmetric])
  finally show ?thesis .
qed

lemma round_to_exact:
  assumes "y = of_int m * 2 powr of_int k" and "\<bar>m\<bar> < 2 ^ p"
    and "emin - (int p - 1) \<le> k" and "\<bar>y\<bar> < 2 powr of_int (emax + 1)"
  shows "round_to p emin emax y = Fin y"
proof (cases "y = 0")
  case True
  then show ?thesis by simp
next
  case False
  with assms have "round_grid p emin y = y" by (intro round_grid_exact)
  with False assms(4) show ?thesis by (simp add: round_to_def)
qed

text \<open>What the rounding returns is on the grid.\<close>

lemma round_to_on_grid:
  assumes "round_to p emin emax x = Fin y" and "0 < p"
  obtains m k where "y = of_int m * 2 powr of_int k" and "\<bar>m\<bar> < 2 ^ p"
    and "emin - (int p - 1) \<le> k" and "\<bar>y\<bar> < 2 powr of_int (emax + 1)"
proof (cases "x = 0")
  case True
  with assms have "y = 0" by simp
  then have "y = of_int 0 * 2 powr of_int (emin - (int p - 1))" "\<bar>0::int\<bar> < 2 ^ p"
    "\<bar>y\<bar> < 2 powr of_int (emax + 1)"
    by simp_all
  then show ?thesis using that by blast
next
  case False
  let ?q = "ulp_exponent p emin x"
  let ?M = "round_half_even (x / 2 powr of_int ?q)"
  from assms(1) False have y: "y = round_grid p emin x"
    and fin: "\<bar>y\<bar> < 2 powr of_int (emax + 1)"
    by (auto simp add: round_to_def split: if_splits)
  have q: "emin - (int p - 1) \<le> ?q" by (simp add: ulp_exponent_def)
  have M: "\<bar>?M\<bar> \<le> 2 ^ p"
    using ulp_exponent_covers [OF False] by (rule scaled_mantissa_bound)
  show ?thesis
  proof (cases "\<bar>?M\<bar> < 2 ^ p")
    case True
    show ?thesis
      by (rule that [OF _ True q fin]) (simp only: y round_grid_def)
  next
    case False
    with M have top: "\<bar>?M\<bar> = 2 ^ p" by linarith
    obtain p' where p': "p = Suc p'" using assms(2) by (cases p) auto
    define m :: int where "m = (if 0 \<le> ?M then 2 ^ p' else - (2 ^ p'))"
    have "?M = m * 2" using top by (auto simp add: m_def p' abs_if split: if_splits)
    then have "y = of_int (m * 2) * 2 powr of_int ?q" by (simp only: y round_grid_def)
    also have "\<dots> = of_int m * (2 powr of_int ?q * 2 powr of_int 1)" by simp
    also have "\<dots> = of_int m * 2 powr of_int (?q + 1)" by (simp only: two_powr_add)
    finally have "y = of_int m * 2 powr of_int (?q + 1)" .
    moreover have "\<bar>m\<bar> < 2 ^ p" by (simp add: m_def p')
    moreover have "emin - (int p - 1) \<le> ?q + 1" using q by simp
    ultimately show ?thesis using fin by (intro that)
  qed
qed

lemma round_to_idem:
  assumes "round_to p emin emax x = Fin y" and "0 < p"
  shows "round_to p emin emax y = Fin y"
proof -
  from assms obtain m k where "y = of_int m * 2 powr of_int k" "\<bar>m\<bar> < 2 ^ p"
    "emin - (int p - 1) \<le> k" "\<bar>y\<bar> < 2 powr of_int (emax + 1)"
    by (rule round_to_on_grid)
  then show ?thesis by (rule round_to_exact)
qed

lemma round_to_wider:
  assumes "round_to p emin emax x = Fin y" and "0 < p"
    and "p \<le> p'" and "emin' - (int p' - 1) \<le> emin - (int p - 1)" and "emax \<le> emax'"
  shows "round_to p' emin' emax' y = Fin y"
proof -
  from assms(1,2) obtain m k where y: "y = of_int m * 2 powr of_int k" and m: "\<bar>m\<bar> < 2 ^ p"
    and k: "emin - (int p - 1) \<le> k" and f: "\<bar>y\<bar> < 2 powr of_int (emax + 1)"
    by (rule round_to_on_grid)
  have "(2::int) ^ p \<le> 2 ^ p'" using assms(3) by simp
  with m have "\<bar>m\<bar> < 2 ^ p'" by linarith
  moreover have "emin' - (int p' - 1) \<le> k" using k assms(4) by linarith
  moreover have "(2::real) powr of_int (emax + 1) \<le> 2 powr of_int (emax' + 1)"
    using assms(5) by simp
  with f have "\<bar>y\<bar> < 2 powr of_int (emax' + 1)" by linarith
  ultimately show ?thesis using y by (intro round_to_exact)
qed

lemma round_to_grid_lower:
  assumes "round_to p emin emax x = Fin y" and "0 < p" and "y \<noteq> 0"
  shows "2 powr of_int (emin - (int p - 1)) \<le> \<bar>y\<bar>"
proof -
  from assms(1,2) obtain m k where y: "y = of_int m * 2 powr of_int k"
    and k: "emin - (int p - 1) \<le> k"
    by (rule round_to_on_grid)
  from y assms(3) have "m \<noteq> 0" by auto
  then have "1 \<le> \<bar>m\<bar>" by linarith
  then have "(1::real) \<le> real_of_int \<bar>m\<bar>" by (simp only: of_int_1_le_iff)
  then have "1 * 2 powr of_int k \<le> real_of_int \<bar>m\<bar> * 2 powr of_int k"
    by (rule mult_right_mono) simp
  moreover have "\<bar>y\<bar> = real_of_int \<bar>m\<bar> * 2 powr of_int k" by (simp add: y abs_mult)
  moreover have "(2::real) powr of_int (emin - (int p - 1)) \<le> 2 powr of_int k"
    using k by (rule two_powr_mono)
  ultimately show ?thesis by linarith
qed







subsection \<open>The two formats\<close>

lemma pow_as_powr: "(2::real) ^ n = 2 powr of_int (int n)"
  by (simp add: powr_realpow)

lemma inv_pow_as_powr: "1 / (2::real) ^ n = 2 powr of_int (- int n)"
  by (simp add: powr_minus powr_realpow divide_inverse)




lemma round32_idem: "round32 x = Fin y \<Longrightarrow> round32 y = Fin y"
  unfolding round32_def by (rule round_to_idem) simp_all

lemma round32_in_round64: "round32 x = Fin y \<Longrightarrow> round64 y = Fin y"
  unfolding round32_def round64_def by (rule round_to_wider [where p = 24 and emin = "- 126" and emax = 127]) simp_all

lemma round32_grid:
  assumes "round32 x = Fin y"
  shows "y = 0 \<or> 1 / 2 ^ 149 \<le> \<bar>y\<bar>" and "\<bar>y\<bar> < 2 ^ 128"
proof -
  have "2 powr of_int (- 126 - (int 24 - 1)) \<le> \<bar>y\<bar>" if "y \<noteq> 0"
    using assms that unfolding round32_def by (intro round_to_grid_lower [where x = x and emax = 127]) simp_all
  moreover have "(2::real) powr of_int (- 126 - (int 24 - 1)) = 1 / 2 ^ 149"
    using inv_pow_as_powr [of 149] by simp
  ultimately show "y = 0 \<or> 1 / 2 ^ 149 \<le> \<bar>y\<bar>" by (cases "y = 0") simp_all
  from assms obtain m k where "\<bar>y\<bar> < 2 powr of_int (127 + 1)"
    unfolding round32_def by (rule round_to_on_grid) simp_all
  then show "\<bar>y\<bar> < 2 ^ 128" using pow_as_powr [of 128] by simp
qed

lemma round64_exact:
  assumes "y = of_int m * 2 powr of_int k" and "\<bar>m\<bar> < 2 ^ 53" and "- 1074 \<le> k"
    and "\<bar>y\<bar> < 2 ^ 1024"
  shows "round64 y = Fin y"
  unfolding round64_def
  using assms pow_as_powr [of 1024] by (intro round_to_exact) simp_all

lemma round32_exact:
  assumes "y = of_int m * 2 powr of_int k" and "\<bar>m\<bar> < 2 ^ 24" and "- 149 \<le> k"
    and "\<bar>y\<bar> < 2 ^ 128"
  shows "round32 y = Fin y"
  unfolding round32_def
  using assms pow_as_powr [of 128] by (intro round_to_exact) simp_all


lemma round64_zero [simp]: "round64 0 = Fin 0"
  by (simp add: round64_def)

lemma round32_zero [simp]: "round32 0 = Fin 0"
  by (simp add: round32_def)

section \<open>The rounding error of a length and of a normalisation\<close>

text \<open>
  For finite float32 components every intermediate result of \<open>length()\<close> and of the
  scaling stays in the normal range of binary64, so each operation adds a relative
  error of at most \<open>2\<close> to the power \<open>-53\<close>; the store of a scaled component adds
  \<open>2\<close> to the power \<open>-24\<close> of it (and less than the least subnormal). The bounds below
  are coarse on purpose: powers of two that absorb each step.
\<close>

lemma round64_finite:
  assumes "\<bar>x\<bar> < 2 ^ 1023"
  shows "\<exists>y. round64 x = Fin y"
proof (cases "x = 0")
  case True
  then show ?thesis by simp
next
  case False
  from assms have "\<bar>x\<bar> < 2 powr of_int 1023" using pow_as_powr [of 1023] by simp
  with False have "round64 x = Fin (round_grid 53 (- 1022) x)"
    unfolding round64_def by (intro round_to_finite) simp_all
  then show ?thesis by blast
qed



















subsection \<open>Stores and finiteness\<close>

lemma round_to_cases:
  "(\<exists>y. round_to p emin emax x = Fin y) \<or> round_to p emin emax x = PInf \<or>
   round_to p emin emax x = NInf"
  by (simp add: round_to_def)

lemma round32_cases:
  obtains y where "round32 x = Fin y" | "round32 x = PInf" | "round32 x = NInf"
  using round_to_cases [of 24 "- 126" 127 x] unfolding round32_def by blast


lemma fround_idem [simp]: "fround (fround c) = fround c"
proof (cases c)
  case (Fin x)
  show ?thesis
  proof (cases rule: round32_cases [of x])
    case (1 y)
    then show ?thesis using Fin by (simp add: round32_idem)
  qed (use Fin in simp_all)
qed simp_all

lemma is_float32_fround [simp]: "is_float32 (fround c)"
  by (simp add: is_float32_def)


lemma is_float32_round64: "is_float32 (Fin x) \<Longrightarrow> round64 x = Fin x"
  by (simp add: is_float32_def round32_in_round64)








lemma js_mul_one_right:
  assumes "round64 x = Fin x"
  shows "js_mul (Fin x) (Fin 1) = Fin x"
  using assms by simp


subsection \<open>Values that round to themselves\<close>

lemma round_to_nearest:
  assumes e: "2 powr of_int e \<le> \<bar>x\<bar>" "\<bar>x\<bar> < 2 powr of_int (e + 1)" and "emin \<le> e"
    and M: "\<bar>x / 2 powr of_int (e - (int p - 1)) - of_int M\<bar> < 1 / 2"
    and fin: "\<bar>of_int M * (2::real) powr of_int (e - (int p - 1))\<bar> < 2 powr of_int (emax + 1)"
  shows "round_to p emin emax x = Fin (of_int M * 2 powr of_int (e - (int p - 1)))"
proof -
  have "0 < (2::real) powr of_int e" by simp
  with e(1) have nz: "x \<noteq> 0" by auto
  from e have "\<lfloor>log 2 \<bar>x\<bar>\<rfloor> = e" by (rule exponent_unique)
  with assms(3) have q: "ulp_exponent p emin x = e - (int p - 1)"
    by (simp add: ulp_exponent_def)
  from M have "round_half_even (x / 2 powr of_int (e - (int p - 1))) = M"
    by (rule round_half_even_unique)
  with q have grid: "round_grid p emin x = of_int M * 2 powr of_int (e - (int p - 1))"
    by (simp only: round_grid_def)
  from fin have nf: "\<not> 2 powr of_int (emax + 1) \<le> \<bar>of_int M * (2::real) powr of_int (e - (int p - 1))\<bar>"
    by (simp only: not_le)
  show ?thesis unfolding round_to_def grid using nz nf by (simp only: if_False)
qed

lemma round64_int:
  assumes "\<bar>m\<bar> < 2 ^ 53"
  shows "round64 (of_int m) = Fin (of_int m)"
proof (rule round64_exact [of _ m 0])
  from assms have "real_of_int \<bar>m\<bar> < real_of_int (2 ^ 53)" by (simp only: of_int_less_iff)
  moreover have "real_of_int (2 ^ 53) < 2 ^ 1024" by simp
  ultimately show "\<bar>real_of_int m\<bar> < 2 ^ 1024" by simp
qed (use assms in simp_all)

lemma round32_int:
  assumes "\<bar>m\<bar> < 2 ^ 24"
  shows "round32 (of_int m) = Fin (of_int m)"
proof (rule round32_exact [of _ m 0])
  from assms have "real_of_int \<bar>m\<bar> < real_of_int (2 ^ 24)" by (simp only: of_int_less_iff)
  moreover have "real_of_int (2 ^ 24) < 2 ^ 128" by simp
  ultimately show "\<bar>real_of_int m\<bar> < 2 ^ 128" by simp
qed (use assms in simp_all)

lemma round64_numeral:
  "(numeral n :: int) < 2 ^ 53 \<Longrightarrow> round64 (numeral n) = Fin (numeral n)"
  "(numeral n :: int) < 2 ^ 53 \<Longrightarrow> round64 (- numeral n) = Fin (- numeral n)"
  "round64 1 = Fin 1"
  "round64 (- 1) = Fin (- 1)"
  using round64_int [of "numeral n"] round64_int [of "- numeral n"] round64_int [of 1]
    round64_int [of "- 1"]
  by simp_all

lemma round32_numeral:
  "(numeral n :: int) < 2 ^ 24 \<Longrightarrow> round32 (numeral n) = Fin (numeral n)"
  "(numeral n :: int) < 2 ^ 24 \<Longrightarrow> round32 (- numeral n) = Fin (- numeral n)"
  "round32 1 = Fin 1"
  "round32 (- 1) = Fin (- 1)"
  using round32_int [of "numeral n"] round32_int [of "- numeral n"] round32_int [of 1]
    round32_int [of "- 1"]
  by simp_all

lemma round64_power2:
  assumes "n \<le> 1023"
  shows "round64 (2 ^ n) = Fin (2 ^ n)" and "round64 (- (2 ^ n)) = Fin (- (2 ^ n))"
proof -
  have less: "(2::real) ^ n < 2 ^ 1024" using assms by (intro power_strict_increasing) simp_all
  show "round64 (2 ^ n) = Fin (2 ^ n)"
    by (rule round64_exact [of _ 1 "int n"]) (use less in \<open>simp_all add: powr_realpow\<close>)
  show "round64 (- (2 ^ n)) = Fin (- (2 ^ n))"
    by (rule round64_exact [of _ "- 1" "int n"]) (use less in \<open>simp_all add: powr_realpow\<close>)
qed

lemma round32_power2:
  assumes "n \<le> 127"
  shows "round32 (2 ^ n) = Fin (2 ^ n)" and "round32 (- (2 ^ n)) = Fin (- (2 ^ n))"
proof -
  have less: "(2::real) ^ n < 2 ^ 128" using assms by (intro power_strict_increasing) simp_all
  show "round32 (2 ^ n) = Fin (2 ^ n)"
    by (rule round32_exact [of _ 1 "int n"]) (use less in \<open>simp_all add: powr_realpow\<close>)
  show "round32 (- (2 ^ n)) = Fin (- (2 ^ n))"
    by (rule round32_exact [of _ "- 1" "int n"]) (use less in \<open>simp_all add: powr_realpow\<close>)
qed


lemma round64_half:
  assumes "round64 d = Fin d" and "d = 0 \<or> 1 / 2 ^ 1000 \<le> \<bar>d\<bar>"
  shows "round64 (d / 2) = Fin (d / 2)"
proof (cases "d = 0")
  case True
  then show ?thesis by simp
next
  case False
  with assms(2) have lo: "1 / 2 ^ 1000 \<le> \<bar>d\<bar>" by simp
  from assms(1) obtain m k where d: "d = of_int m * 2 powr of_int k" and m: "\<bar>m\<bar> < 2 ^ 53"
    and k: "- 1022 - (int 53 - 1) \<le> k" and f: "\<bar>d\<bar> < 2 powr of_int (1023 + 1)"
    unfolding round64_def by (rule round_to_on_grid) simp_all
  from m have "real_of_int \<bar>m\<bar> < real_of_int (2 ^ 53)" by (simp only: of_int_less_iff)
  then have "real_of_int \<bar>m\<bar> * 2 powr of_int k < real_of_int (2 ^ 53) * 2 powr of_int k"
    by (rule mult_strict_right_mono) simp
  moreover have "\<bar>d\<bar> = real_of_int \<bar>m\<bar> * 2 powr of_int k" by (simp add: d abs_mult)
  moreover have "real_of_int (2 ^ 53) * 2 powr of_int k = 2 powr of_int (53 + k)"
    using two_powr_add [of 53 k] two_powr_nat [of 53] by simp
  moreover have "(1::real) / 2 ^ 1000 = 2 powr of_int (- 1000)"
    using inv_pow_as_powr [of 1000] by simp
  ultimately have "\<bar>d\<bar> < 2 powr of_int (53 + k)" "2 powr of_int (- 1000) \<le> \<bar>d\<bar>"
    using lo by (simp_all only:)
  then have "(2::real) powr of_int (- 1000) < 2 powr of_int (53 + k)" by linarith
  then have k': "- 1000 < 53 + k" by simp
  show ?thesis
  proof (rule round64_exact [of _ m "k - 1"])
    show "d / 2 = real_of_int m * 2 powr of_int (k - 1)"
      unfolding two_powr_pred by (simp add: d)
    show "\<bar>m\<bar> < 2 ^ 53" by (rule m)
    show "- 1074 \<le> k - 1" using k' by simp
    have "\<bar>d / 2\<bar> \<le> \<bar>d\<bar>" by simp
    also have "\<bar>d\<bar> < 2 ^ 1024" using f pow_as_powr [of 1024] by simp
    finally show "\<bar>d / 2\<bar> < 2 ^ 1024" .
  qed
qed

lemma float32_multiple:
  assumes "round32 x = Fin x"
  obtains j :: int where "x = of_int j / 2 ^ 149"
proof -
  from assms obtain m k where x: "x = of_int m * 2 powr of_int k"
    and k: "- 126 - (int 24 - 1) \<le> k"
    unfolding round32_def by (rule round_to_on_grid) simp_all
  define n where "n = nat (k + 149)"
  from k have kn: "k = int n + (- 149)" by (simp add: n_def)
  have "(2::real) powr of_int k = 2 powr of_int (int n) * 2 powr of_int (- 149)"
    unfolding kn by (rule two_powr_add)
  also have "\<dots> = 2 ^ n / 2 ^ 149"
    using inv_pow_as_powr [of 149] by (simp add: powr_realpow)
  finally have "x = of_int (m * 2 ^ n) / 2 ^ 149" by (simp add: x)
  then show ?thesis by (rule that)
qed

lemma float32_difference_lower:
  assumes "round32 x = Fin x" and "round32 y = Fin y"
  shows "y - x = 0 \<or> 1 / 2 ^ 149 \<le> \<bar>y - x\<bar>"
proof (cases "y = x")
  case True
  then show ?thesis by simp
next
  case False
  from assms(1) obtain i :: int where x: "x = of_int i / 2 ^ 149" by (rule float32_multiple)
  from assms(2) obtain j :: int where y: "y = of_int j / 2 ^ 149" by (rule float32_multiple)
  from False x y have "j \<noteq> i" by auto
  then have "1 \<le> \<bar>j - i\<bar>" by linarith
  then have "(1::real) \<le> real_of_int \<bar>j - i\<bar>" by (simp only: of_int_1_le_iff)
  then have "1 / 2 ^ 149 \<le> real_of_int \<bar>j - i\<bar> / 2 ^ 149"
    by (intro divide_right_mono) simp_all
  moreover have "\<bar>y - x\<bar> = real_of_int \<bar>j - i\<bar> / 2 ^ 149"
    by (simp add: x y diff_divide_distrib [symmetric] abs_divide)
  ultimately show ?thesis by simp
qed

subsection \<open>One component of an interpolation\<close>

lemma lerp_zero:
  assumes "is_float32 (Fin x)" and "is_float32 (Fin y)"
  shows "fround (js_add (Fin x) (js_mul (Fin 0) (js_sub (Fin y) (Fin x)))) = Fin x"
proof -
  from assms have "\<bar>x\<bar> < 2 ^ 128" "\<bar>y\<bar> < 2 ^ 128"
    using round32_grid(2) [of x x] round32_grid(2) [of y y] by (simp_all add: is_float32_def)
  then have "\<bar>y + - x\<bar> < 2 ^ 128 + 2 ^ 128" by linarith
  moreover have "(2::real) ^ 128 + 2 ^ 128 < 2 ^ 1023" by simp
  ultimately have "\<bar>y + - x\<bar> < 2 ^ 1023" by (rule less_trans)
  then obtain d where "round64 (y + - x) = Fin d" using round64_finite by blast
  moreover from assms(1) have "round64 x = Fin x" "round32 x = Fin x"
    by (simp_all add: is_float32_round64 is_float32_def)
  ultimately show ?thesis by (simp add: js_sub_def)
qed

lemma lerp_one:
  assumes "is_float32 (Fin y)" and "js_sub (Fin y) (Fin x) = Fin (y - x)"
  shows "fround (js_add (Fin x) (js_mul (Fin 1) (js_sub (Fin y) (Fin x)))) = Fin y"
proof -
  from assms(2) have "round64 (y - x) = Fin (y - x)" by (simp add: js_sub_def)
  moreover from assms(1) have "round64 y = Fin y" "round32 y = Fin y"
    by (simp_all add: is_float32_round64 is_float32_def)
  ultimately show ?thesis by (simp add: assms(2))
qed

lemma lerp_half:
  assumes "is_float32 (Fin x)" and "is_float32 (Fin y)"
    and "js_sub (Fin y) (Fin x) = Fin (y - x)" and "is_float32 (Fin ((x + y) / 2))"
  shows "fround (js_add (Fin x) (js_mul (Fin (1 / 2)) (js_sub (Fin y) (Fin x))))
           = Fin ((x + y) / 2)"
proof -
  from assms(3) have d: "round64 (y - x) = Fin (y - x)" by (simp add: js_sub_def)
  from assms(1,2) have "y - x = 0 \<or> 1 / 2 ^ 149 \<le> \<bar>y - x\<bar>"
    by (intro float32_difference_lower) (simp_all add: is_float32_def)
  moreover have "(1::real) / 2 ^ 1000 \<le> 1 / 2 ^ 149" by simp
  ultimately have "y - x = 0 \<or> 1 / 2 ^ 1000 \<le> \<bar>y - x\<bar>" by linarith
  with d have half: "round64 ((y - x) / 2) = Fin ((y - x) / 2)" by (rule round64_half)
  have "1 / 2 * (y - x) = (y - x) / 2" by simp
  then have s2: "js_mul (Fin (1 / 2)) (Fin (y - x)) = Fin ((y - x) / 2)"
    by (simp only: js_mul.simps half)
  have mid: "x + (y - x) / 2 = (x + y) / 2" by (simp add: field_simps)
  from assms(4) have r64: "round64 ((x + y) / 2) = Fin ((x + y) / 2)"
    by (rule is_float32_round64)
  from assms(4) have r32: "fround (Fin ((x + y) / 2)) = Fin ((x + y) / 2)"
    by (simp only: is_float32_def)
  have s3: "js_add (Fin x) (Fin ((y - x) / 2)) = Fin ((x + y) / 2)"
    by (simp only: js_add.simps mid r64)
  show ?thesis by (simp only: assms(3) s2 s3 r32)
qed

section \<open>What the operations leave on the heap of float32 vectors\<close>

text \<open>
  As on the first heap, each operation writes one instance, and what it writes is
  computed from the values the operands had before the call.
\<close>

lemmas Vector3_f32_slots = Vector3_x_f32_def Vector3_y_f32_def Vector3_z_f32_def
  Vector3_xyz_f32_def Vector3_set_x_f32_def Vector3_set_y_f32_def Vector3_set_z_f32_def
  Vector3_set_xyz_f32_def js_index_def

lemmas Vector2_f32_slots = Vector2_x_f32_def Vector2_y_f32_def Vector2_xy_f32_def
  Vector2_set_x_f32_def Vector2_set_y_f32_def Vector2_set_xy_f32_def js_index_def

lemma Vector3_f32_update_all:
  "(r::Vector3_f32)\<lparr>f3x := a, f3y := b, f3z := c\<rparr> = \<lparr>f3x = a, f3y = b, f3z = c\<rparr>"
  by (cases r) simp

lemma Vector2_f32_update_all:
  "(r::Vector2_f32)\<lparr>f2x := a, f2y := b\<rparr> = \<lparr>f2x = a, f2y = b\<rparr>"
  by (cases r) simp

lemma Vector3_new_f32_default:
  "Vector3_new_f32 JSUndefined_f32 JSUndefined_f32 JSUndefined_f32 h =
     (length (vector3s_f32 h),
      h\<lparr>vector3s_f32 := vector3s_f32 h @ [\<lparr>f3x = Fin 0, f3y = Fin 0, f3z = Fin 0\<rparr>]\<rparr>)"
  by (simp add: Vector3_new_f32_def Vector3_set_xyz_f32_def js_index_def number_or_zero_def
      Let_def Vector3_f32_update_all)

lemma Vector2_new_f32_default:
  "Vector2_new_f32 None h =
     (length (vector2s_f32 h),
      h\<lparr>vector2s_f32 := vector2s_f32 h @ [\<lparr>f2x = Fin 0, f2y = Fin 0\<rparr>]\<rparr>)"
  by (simp add: Vector2_new_f32_def Vector2_set_xy_f32_def js_index_def Let_def
      Vector2_f32_update_all)

lemma Vector3_lerp_value:
  assumes "a < length (vector3s_f32 h)" and "b < length (vector3s_f32 h)"
    and "case dest of None \<Rightarrow> True | Some d \<Rightarrow> d < length (vector3s_f32 h)"
  shows "vector3s_f32 (snd (Vector3_lerp a b t dest h)) ! fst (Vector3_lerp a b t dest h) =
     \<lparr>f3x = fround (js_add (Vector3_x_f32 a h)
                (js_mul t (js_sub (Vector3_x_f32 b h) (Vector3_x_f32 a h)))),
      f3y = fround (js_add (Vector3_y_f32 a h)
                (js_mul t (js_sub (Vector3_y_f32 b h) (Vector3_y_f32 a h)))),
      f3z = fround (js_add (Vector3_z_f32 a h)
                (js_mul t (js_sub (Vector3_z_f32 b h) (Vector3_z_f32 a h))))\<rparr>"
proof (cases dest)
  case None
  with assms show ?thesis
    by (simp add: Vector3_lerp_def Vector3_new_f32_default Vector3_f32_slots Let_def nth_append
        Vector3_f32_update_all)
next
  case (Some d)
  with assms show ?thesis
    by (simp add: Vector3_lerp_def Vector3_f32_slots Let_def nth_list_update
        Vector3_f32_update_all)
qed

lemma Vector2_lerp_value:
  assumes "a < length (vector2s_f32 h)" and "b < length (vector2s_f32 h)"
    and "case dest of None \<Rightarrow> True | Some d \<Rightarrow> d < length (vector2s_f32 h)"
  shows "vector2s_f32 (snd (Vector2_lerp a b t dest h)) ! fst (Vector2_lerp a b t dest h) =
     \<lparr>f2x = fround (js_add (Vector2_x_f32 a h)
                (js_mul t (js_sub (Vector2_x_f32 b h) (Vector2_x_f32 a h)))),
      f2y = fround (js_add (Vector2_y_f32 a h)
                (js_mul t (js_sub (Vector2_y_f32 b h) (Vector2_y_f32 a h))))\<rparr>"
proof (cases dest)
  case None
  with assms show ?thesis
    by (simp add: Vector2_lerp_def Vector2_new_f32_default Vector2_f32_slots Let_def nth_append
        Vector2_f32_update_all)
next
  case (Some d)
  with assms show ?thesis
    by (simp add: Vector2_lerp_def Vector2_f32_slots Let_def nth_list_update
        Vector2_f32_update_all)
qed







lemma heap_F_live: "length (vector3s_f32 heap_F) = 5" "length (vector2s_f32 heap_F) = 5"
  by (simp_all add: heap_F_def)

lemma heap_F_slots:
  "vector3s_f32 heap_F ! 0 = \<lparr>f3x = Fin 3, f3y = Fin 0, f3z = Fin 4\<rparr>"
  "vector3s_f32 heap_F ! Suc 0 = \<lparr>f3x = Fin 0, f3y = Fin 0, f3z = Fin 0\<rparr>"
  "vector3s_f32 heap_F ! 2 = \<lparr>f3x = Fin 1, f3y = Fin 0, f3z = Fin 0\<rparr>"
  "vector3s_f32 heap_F ! 3 = \<lparr>f3x = Fin 1, f3y = Fin 2, f3z = Fin 3\<rparr>"
  "vector3s_f32 heap_F ! 4 = \<lparr>f3x = Fin 3, f3y = Fin 4, f3z = Fin 5\<rparr>"
  "vector2s_f32 heap_F ! 0 = \<lparr>f2x = Fin 3, f2y = Fin 4\<rparr>"
  "vector2s_f32 heap_F ! Suc 0 = \<lparr>f2x = Fin 0, f2y = Fin 0\<rparr>"
  "vector2s_f32 heap_F ! 2 = \<lparr>f2x = Fin 1, f2y = Fin 0\<rparr>"
  "vector2s_f32 heap_F ! 3 = \<lparr>f2x = Fin 1, f2y = Fin 2\<rparr>"
  "vector2s_f32 heap_F ! 4 = \<lparr>f2x = Fin 3, f2y = Fin 4\<rparr>"
  by (simp_all add: heap_F_def)

lemma small_float32:
  "is_float32 (Fin 0)" "is_float32 (Fin 1)" "is_float32 (Fin 2)" "is_float32 (Fin 3)"
  "is_float32 (Fin 4)" "is_float32 (Fin 5)"
  by (simp_all add: is_float32_def round32_numeral)

lemma round64_one_minus_big: "round64 (1 - 2 ^ 70) = Fin (- (2 ^ 70))"
proof -
  have "round_to 53 (- 1022) 1023 (1 - 2 ^ 70)
      = Fin (of_int (- (2 ^ 53)) * 2 powr of_int (69 - (int 53 - 1)))"
    by (rule round_to_nearest) simp_all
  then show ?thesis by (simp add: round64_def)
qed



lemma Vector3_lerp_endpoints:
  assumes "a < length (vector3s_f32 h)" and "b < length (vector3s_f32 h)"
    and "case dest of None \<Rightarrow> True | Some d \<Rightarrow> d < length (vector3s_f32 h)"
    and A: "vector3s_f32 h ! a = \<lparr>f3x = Fin a1, f3y = Fin a2, f3z = Fin a3\<rparr>"
    and B: "vector3s_f32 h ! b = \<lparr>f3x = Fin b1, f3y = Fin b2, f3z = Fin b3\<rparr>"
    and fa: "is_float32 (Fin a1)" "is_float32 (Fin a2)" "is_float32 (Fin a3)"
    and fb: "is_float32 (Fin b1)" "is_float32 (Fin b2)" "is_float32 (Fin b3)"
  shows "vector3s_f32 (snd (Vector3_lerp a b (Fin 0) dest h)) ! fst (Vector3_lerp a b (Fin 0) dest h)
           = vector3s_f32 h ! a"
    and "js_sub (Fin b1) (Fin a1) = Fin (b1 - a1) \<Longrightarrow> js_sub (Fin b2) (Fin a2) = Fin (b2 - a2) \<Longrightarrow>
         js_sub (Fin b3) (Fin a3) = Fin (b3 - a3) \<Longrightarrow>
         vector3s_f32 (snd (Vector3_lerp a b (Fin 1) dest h)) ! fst (Vector3_lerp a b (Fin 1) dest h)
           = vector3s_f32 h ! b"
    and "js_sub (Fin b1) (Fin a1) = Fin (b1 - a1) \<Longrightarrow> js_sub (Fin b2) (Fin a2) = Fin (b2 - a2) \<Longrightarrow>
         js_sub (Fin b3) (Fin a3) = Fin (b3 - a3) \<Longrightarrow>
         is_float32 (Fin ((a1 + b1) / 2)) \<Longrightarrow> is_float32 (Fin ((a2 + b2) / 2)) \<Longrightarrow>
         is_float32 (Fin ((a3 + b3) / 2)) \<Longrightarrow>
         vector3s_f32 (snd (Vector3_lerp a b (Fin (1 / 2)) dest h))
             ! fst (Vector3_lerp a b (Fin (1 / 2)) dest h)
           = \<lparr>f3x = Fin ((a1 + b1) / 2), f3y = Fin ((a2 + b2) / 2), f3z = Fin ((a3 + b3) / 2)\<rparr>"
proof -
  have slots: "Vector3_x_f32 a h = Fin a1" "Vector3_y_f32 a h = Fin a2" "Vector3_z_f32 a h = Fin a3"
    "Vector3_x_f32 b h = Fin b1" "Vector3_y_f32 b h = Fin b2" "Vector3_z_f32 b h = Fin b3"
    by (simp_all add: Vector3_x_f32_def Vector3_y_f32_def Vector3_z_f32_def A B)
  note formula = Vector3_lerp_value [OF assms(1-3), unfolded slots]
  show "vector3s_f32 (snd (Vector3_lerp a b (Fin 0) dest h)) ! fst (Vector3_lerp a b (Fin 0) dest h)
          = vector3s_f32 h ! a"
    by (simp only: formula A lerp_zero [OF fa(1) fb(1)] lerp_zero [OF fa(2) fb(2)]
        lerp_zero [OF fa(3) fb(3)])
  show "vector3s_f32 (snd (Vector3_lerp a b (Fin 1) dest h)) ! fst (Vector3_lerp a b (Fin 1) dest h)
          = vector3s_f32 h ! b"
    if "js_sub (Fin b1) (Fin a1) = Fin (b1 - a1)" "js_sub (Fin b2) (Fin a2) = Fin (b2 - a2)"
      "js_sub (Fin b3) (Fin a3) = Fin (b3 - a3)"
    by (simp only: formula B lerp_one [OF fb(1) that(1)] lerp_one [OF fb(2) that(2)]
        lerp_one [OF fb(3) that(3)])
  show "vector3s_f32 (snd (Vector3_lerp a b (Fin (1 / 2)) dest h))
            ! fst (Vector3_lerp a b (Fin (1 / 2)) dest h)
          = \<lparr>f3x = Fin ((a1 + b1) / 2), f3y = Fin ((a2 + b2) / 2), f3z = Fin ((a3 + b3) / 2)\<rparr>"
    if "js_sub (Fin b1) (Fin a1) = Fin (b1 - a1)" "js_sub (Fin b2) (Fin a2) = Fin (b2 - a2)"
      "js_sub (Fin b3) (Fin a3) = Fin (b3 - a3)"
      "is_float32 (Fin ((a1 + b1) / 2))" "is_float32 (Fin ((a2 + b2) / 2))"
      "is_float32 (Fin ((a3 + b3) / 2))"
    by (simp only: formula lerp_half [OF fa(1) fb(1) that(1) that(4)]
        lerp_half [OF fa(2) fb(2) that(2) that(5)] lerp_half [OF fa(3) fb(3) that(3) that(6)])
qed

lemma Vector2_lerp_endpoints:
  assumes "a < length (vector2s_f32 h)" and "b < length (vector2s_f32 h)"
    and "case dest of None \<Rightarrow> True | Some d \<Rightarrow> d < length (vector2s_f32 h)"
    and A: "vector2s_f32 h ! a = \<lparr>f2x = Fin a1, f2y = Fin a2\<rparr>"
    and B: "vector2s_f32 h ! b = \<lparr>f2x = Fin b1, f2y = Fin b2\<rparr>"
    and fa: "is_float32 (Fin a1)" "is_float32 (Fin a2)"
    and fb: "is_float32 (Fin b1)" "is_float32 (Fin b2)"
  shows "vector2s_f32 (snd (Vector2_lerp a b (Fin 0) dest h)) ! fst (Vector2_lerp a b (Fin 0) dest h)
           = vector2s_f32 h ! a"
    and "js_sub (Fin b1) (Fin a1) = Fin (b1 - a1) \<Longrightarrow> js_sub (Fin b2) (Fin a2) = Fin (b2 - a2) \<Longrightarrow>
         vector2s_f32 (snd (Vector2_lerp a b (Fin 1) dest h)) ! fst (Vector2_lerp a b (Fin 1) dest h)
           = vector2s_f32 h ! b"
    and "js_sub (Fin b1) (Fin a1) = Fin (b1 - a1) \<Longrightarrow> js_sub (Fin b2) (Fin a2) = Fin (b2 - a2) \<Longrightarrow>
         is_float32 (Fin ((a1 + b1) / 2)) \<Longrightarrow> is_float32 (Fin ((a2 + b2) / 2)) \<Longrightarrow>
         vector2s_f32 (snd (Vector2_lerp a b (Fin (1 / 2)) dest h))
             ! fst (Vector2_lerp a b (Fin (1 / 2)) dest h)
           = \<lparr>f2x = Fin ((a1 + b1) / 2), f2y = Fin ((a2 + b2) / 2)\<rparr>"
proof -
  have slots: "Vector2_x_f32 a h = Fin a1" "Vector2_y_f32 a h = Fin a2"
    "Vector2_x_f32 b h = Fin b1" "Vector2_y_f32 b h = Fin b2"
    by (simp_all add: Vector2_x_f32_def Vector2_y_f32_def A B)
  note formula = Vector2_lerp_value [OF assms(1-3), unfolded slots]
  show "vector2s_f32 (snd (Vector2_lerp a b (Fin 0) dest h)) ! fst (Vector2_lerp a b (Fin 0) dest h)
          = vector2s_f32 h ! a"
    by (simp only: formula A lerp_zero [OF fa(1) fb(1)] lerp_zero [OF fa(2) fb(2)])
  show "vector2s_f32 (snd (Vector2_lerp a b (Fin 1) dest h)) ! fst (Vector2_lerp a b (Fin 1) dest h)
          = vector2s_f32 h ! b"
    if "js_sub (Fin b1) (Fin a1) = Fin (b1 - a1)" "js_sub (Fin b2) (Fin a2) = Fin (b2 - a2)"
    by (simp only: formula B lerp_one [OF fb(1) that(1)] lerp_one [OF fb(2) that(2)])
  show "vector2s_f32 (snd (Vector2_lerp a b (Fin (1 / 2)) dest h))
            ! fst (Vector2_lerp a b (Fin (1 / 2)) dest h)
          = \<lparr>f2x = Fin ((a1 + b1) / 2), f2y = Fin ((a2 + b2) / 2)\<rparr>"
    if "js_sub (Fin b1) (Fin a1) = Fin (b1 - a1)" "js_sub (Fin b2) (Fin a2) = Fin (b2 - a2)"
      "is_float32 (Fin ((a1 + b1) / 2))" "is_float32 (Fin ((a2 + b2) / 2))"
    by (simp only: formula lerp_half [OF fa(1) fb(1) that(1) that(3)]
        lerp_half [OF fa(2) fb(2) that(2) that(4)])
qed






























section \<open>The destination convention\<close>

text \<open>
  Claim C1. Let \<open>a\<close>, \<open>b\<close> be live vectors of one dimension. A static operation
  (\<open>sum\<close>, \<open>difference\<close>, \<open>product\<close>) called without a destination returns a reference
  \<open>r\<close> that was not live before the call, the heap grows by exactly that instance, and
  every instance that was live before, \<open>a\<close> and \<open>b\<close> included, holds what it held. The
  instance operation of the same arithmetic (\<open>add\<close>, \<open>subtract\<close>, \<open>multiply\<close>) called
  without a destination returns the receiver \<open>a\<close>, allocates nothing, leaves in \<open>a\<close> the
  very value the static operation put into its new instance, and changes no instance
  other than \<open>a\<close>; so an argument \<open>b\<close> that is another instance than the receiver is not
  mutated. The component-wise division (\<open>quotient\<close>, \<open>divide\<close>) has the same shape in
  the source; it is not modelled, since a zero divisor gives a component that is not a
  number of the model.
\<close>

theorem destination_default_asymmetry:
  assumes "a < length (vector3s h)" and "b < length (vector3s h)"
    and "u < length (vector2s h)" and "v < length (vector2s h)"
  shows
    "(\<forall>(free, inst) \<in> set [(Vector3_sum, Vector3_add), (Vector3_difference, Vector3_subtract),
                              (Vector3_product, Vector3_multiply)].
        case free a b None h of (r, h1) \<Rightarrow> case inst a b None h of (r', h2) \<Rightarrow>
          r = length (vector3s h) \<and> length (vector3s h1) = Suc (length (vector3s h)) \<and>
          (\<forall>p < length (vector3s h). vector3s h1 ! p = vector3s h ! p) \<and>
          vector3s h1 ! a = vector3s h ! a \<and> vector3s h1 ! b = vector3s h ! b \<and>
          vector2s h1 = vector2s h \<and>
          r' = a \<and> length (vector3s h2) = length (vector3s h) \<and>
          vector3s h2 ! a = vector3s h1 ! r \<and>
          (\<forall>p. p \<noteq> a \<longrightarrow> vector3s h2 ! p = vector3s h ! p) \<and>
          (b \<noteq> a \<longrightarrow> vector3s h2 ! b = vector3s h ! b) \<and>
          vector2s h2 = vector2s h) \<and>
     (\<forall>(free, inst) \<in> set [(Vector2_sum, Vector2_add), (Vector2_difference, Vector2_subtract),
                              (Vector2_product, Vector2_multiply)].
        case free u v None h of (r, h1) \<Rightarrow> case inst u v None h of (r', h2) \<Rightarrow>
          r = length (vector2s h) \<and> length (vector2s h1) = Suc (length (vector2s h)) \<and>
          (\<forall>p < length (vector2s h). vector2s h1 ! p = vector2s h ! p) \<and>
          vector2s h1 ! u = vector2s h ! u \<and> vector2s h1 ! v = vector2s h ! v \<and>
          vector3s h1 = vector3s h \<and>
          r' = u \<and> length (vector2s h2) = length (vector2s h) \<and>
          vector2s h2 ! u = vector2s h1 ! r \<and>
          (\<forall>p. p \<noteq> u \<longrightarrow> vector2s h2 ! p = vector2s h ! p) \<and>
          (v \<noteq> u \<longrightarrow> vector2s h2 ! v = vector2s h ! v) \<and>
          vector3s h2 = vector3s h)"
proof -
  have three:
    "\<forall>(free, inst) \<in> set [(Vector3_sum, Vector3_add), (Vector3_difference, Vector3_subtract),
                             (Vector3_product, Vector3_multiply)].
        case free a b None h of (r, h1) \<Rightarrow> case inst a b None h of (r', h2) \<Rightarrow>
          r = length (vector3s h) \<and> length (vector3s h1) = Suc (length (vector3s h)) \<and>
          (\<forall>p < length (vector3s h). vector3s h1 ! p = vector3s h ! p) \<and>
          vector3s h1 ! a = vector3s h ! a \<and> vector3s h1 ! b = vector3s h ! b \<and>
          vector2s h1 = vector2s h \<and>
          r' = a \<and> length (vector3s h2) = length (vector3s h) \<and>
          vector3s h2 ! a = vector3s h1 ! r \<and>
          (\<forall>p. p \<noteq> a \<longrightarrow> vector3s h2 ! p = vector3s h ! p) \<and>
          (b \<noteq> a \<longrightarrow> vector3s h2 ! b = vector3s h ! b) \<and>
          vector2s h2 = vector2s h"
    using assms(1,2)
    by (simp add: Vector3_sum_None Vector3_add_None Vector3_difference_None
        Vector3_subtract_None Vector3_product_None Vector3_multiply_None nth_append)
  have two:
    "\<forall>(free, inst) \<in> set [(Vector2_sum, Vector2_add), (Vector2_difference, Vector2_subtract),
                             (Vector2_product, Vector2_multiply)].
        case free u v None h of (r, h1) \<Rightarrow> case inst u v None h of (r', h2) \<Rightarrow>
          r = length (vector2s h) \<and> length (vector2s h1) = Suc (length (vector2s h)) \<and>
          (\<forall>p < length (vector2s h). vector2s h1 ! p = vector2s h ! p) \<and>
          vector2s h1 ! u = vector2s h ! u \<and> vector2s h1 ! v = vector2s h ! v \<and>
          vector3s h1 = vector3s h \<and>
          r' = u \<and> length (vector2s h2) = length (vector2s h) \<and>
          vector2s h2 ! u = vector2s h1 ! r \<and>
          (\<forall>p. p \<noteq> u \<longrightarrow> vector2s h2 ! p = vector2s h ! p) \<and>
          (v \<noteq> u \<longrightarrow> vector2s h2 ! v = vector2s h ! v) \<and>
          vector3s h2 = vector3s h"
    using assms(3,4)
    by (simp add: Vector2_sum_None Vector2_add_None Vector2_difference_None
        Vector2_subtract_None Vector2_product_None Vector2_multiply_None nth_append)
  from three two show ?thesis by (rule conjI)
qed

text \<open>
  On \<open>heap_A\<close>, with \<open>a = 0\<close> and \<open>b = 1\<close>: \<open>sum\<close> returns the new reference \<open>2\<close> and
  both operands hold what they held; \<open>add\<close> returns \<open>0\<close>, which now holds the sum, and
  the argument holds what it held.
\<close>

theorem destination_default_asymmetry_witness:
  "fst (Vector3_sum 0 1 None heap_A) = 2 \<and>
   vector3s (snd (Vector3_sum 0 1 None heap_A)) ! 0 = \<lparr>v3x = 1, v3y = 2, v3z = 3\<rparr> \<and>
   vector3s (snd (Vector3_sum 0 1 None heap_A)) ! 1 = \<lparr>v3x = 4, v3y = 5, v3z = 6\<rparr> \<and>
   fst (Vector3_add 0 1 None heap_A) = 0 \<and>
   vector3s (snd (Vector3_add 0 1 None heap_A)) ! 0
     = vector3s (snd (Vector3_sum 0 1 None heap_A)) ! fst (Vector3_sum 0 1 None heap_A) \<and>
   vector3s (snd (Vector3_add 0 1 None heap_A)) ! 1 = \<lparr>v3x = 4, v3y = 5, v3z = 6\<rparr> \<and>
   fst (Vector2_sum 0 1 None heap_A) = 2 \<and>
   vector2s (snd (Vector2_sum 0 1 None heap_A)) ! 0 = \<lparr>v2x = 1, v2y = 2\<rparr> \<and>
   vector2s (snd (Vector2_sum 0 1 None heap_A)) ! 1 = \<lparr>v2x = 3, v2y = 4\<rparr> \<and>
   fst (Vector2_add 0 1 None heap_A) = 0 \<and>
   vector2s (snd (Vector2_add 0 1 None heap_A)) ! 0
     = vector2s (snd (Vector2_sum 0 1 None heap_A)) ! fst (Vector2_sum 0 1 None heap_A) \<and>
   vector2s (snd (Vector2_add 0 1 None heap_A)) ! 1 = \<lparr>v2x = 3, v2y = 4\<rparr>"
  using destination_default_asymmetry
    [where a = 0 and b = 1 and u = 0 and v = 1 and h = heap_A]
  unfolding heap_A_def
  by (simp add: case_prod_beta)

section \<open>Normalisation\<close>




section \<open>Direction\<close>




section \<open>Equality within a tolerance\<close>



text \<open>
  Claim C5. \<open>MathHelper.equals(a, b, t)\<close> is true exactly when
  \<open>|a - b| \<le> t * max(1, |a|, |b|)\<close>, and the omitted tolerance is \<open>EPSILON = 0.00001\<close>.
  When both magnitudes are at most \<open>1\<close> this is the absolute bound \<open>|a - b| \<le> t\<close>;
  when one of them is at least \<open>1\<close> it is the relative bound
  \<open>|a - b| \<le> t * max(|a|, |b|)\<close>.
\<close>

theorem MathHelper_equals_combined_tolerance:
  "(MathHelper_equals a b (Some t) \<longleftrightarrow> \<bar>a - b\<bar> \<le> t * max 1 (max \<bar>a\<bar> \<bar>b\<bar>)) \<and>
   (MathHelper_equals a b None \<longleftrightarrow> \<bar>a - b\<bar> \<le> 0.00001 * max 1 (max \<bar>a\<bar> \<bar>b\<bar>)) \<and>
   (\<bar>a\<bar> \<le> 1 \<and> \<bar>b\<bar> \<le> 1 \<longrightarrow> (MathHelper_equals a b (Some t) \<longleftrightarrow> \<bar>a - b\<bar> \<le> t)) \<and>
   (1 \<le> \<bar>a\<bar> \<or> 1 \<le> \<bar>b\<bar> \<longrightarrow>
      (MathHelper_equals a b (Some t) \<longleftrightarrow> \<bar>a - b\<bar> \<le> t * max \<bar>a\<bar> \<bar>b\<bar>))"
proof -
  have m: "max (max 1 \<bar>a\<bar>) \<bar>b\<bar> = max 1 (max \<bar>a\<bar> \<bar>b\<bar>)"
    by (simp add: max.assoc)
  have small: "max 1 (max \<bar>a\<bar> \<bar>b\<bar>) = 1" if "\<bar>a\<bar> \<le> 1 \<and> \<bar>b\<bar> \<le> 1"
    using that by (simp add: max_def)
  have large: "max 1 (max \<bar>a\<bar> \<bar>b\<bar>) = max \<bar>a\<bar> \<bar>b\<bar>" if "1 \<le> \<bar>a\<bar> \<or> 1 \<le> \<bar>b\<bar>"
    using that by (auto simp add: max_def)
  show ?thesis
    by (simp add: MathHelper_equals_def MathHelper_EPSILON_def m small large)
qed

text \<open>
  With the default tolerance: \<open>1000000\<close> and \<open>1000000.00001\<close> are equal under the relative
  bound and \<open>1000000\<close> and \<open>1000011\<close> are not; \<open>0.0000001\<close> and \<open>0.0000021\<close> are equal
  under the absolute bound and \<open>0\<close> and \<open>0.00002\<close> are not.
\<close>

theorem MathHelper_equals_combined_tolerance_witness:
  "MathHelper_equals 1000000 1000000.00001 None \<and>
   \<not> MathHelper_equals 1000000 1000011 None \<and>
   MathHelper_equals 0.0000001 0.0000021 None \<and>
   \<not> MathHelper_equals 0 0.00002 None"
proof -
  have eps: "MathHelper_equals a b None = MathHelper_equals a b (Some 0.00001)" for a b
    by (simp add: MathHelper_equals_combined_tolerance)
  have "MathHelper_equals 1000000 1000000.00001 (Some 0.00001)"
    using MathHelper_equals_combined_tolerance [of 1000000 "1000000.00001" "0.00001"]
    by simp
  moreover have "\<not> MathHelper_equals 1000000 1000011 (Some 0.00001)"
    using MathHelper_equals_combined_tolerance [of 1000000 1000011 "0.00001"]
    by simp
  moreover have "MathHelper_equals 0.0000001 0.0000021 (Some 0.00001)"
    using MathHelper_equals_combined_tolerance [of "0.0000001" "0.0000021" "0.00001"]
    by simp
  moreover have "\<not> MathHelper_equals 0 0.00002 (Some 0.00001)"
    using MathHelper_equals_combined_tolerance [of 0 "0.00002" "0.00001"]
    by simp
  ultimately show ?thesis by (simp add: eps)
qed

section \<open>Aliasing\<close>

text \<open>
  Claim C6. For a live vector \<open>a\<close>, the call \<open>a.add(a)\<close> and the call \<open>a.add(a, a)\<close>
  both return \<open>a\<close>, change no other instance, and leave in \<open>a\<close> the vector whose every
  component is the sum of the two values that component had before the call, that is
  twice the old component: the write of one component is not seen by the reads of the
  later ones.
\<close>

theorem aliased_add_doubles:
  assumes "a < length (vector3s h)" and "u < length (vector2s h)"
  shows
    "Vector3_add a a None h =
       (a, h\<lparr>vector3s := (vector3s h)[a :=
          \<lparr>v3x = Vector3_x a h + Vector3_x a h, v3y = Vector3_y a h + Vector3_y a h,
           v3z = Vector3_z a h + Vector3_z a h\<rparr>]\<rparr>) \<and>
     Vector3_add a a (Some a) h = Vector3_add a a None h \<and>
     (case Vector3_add a a None h of (r, h') \<Rightarrow>
        Vector3_x r h' = 2 * Vector3_x a h \<and> Vector3_y r h' = 2 * Vector3_y a h \<and>
        Vector3_z r h' = 2 * Vector3_z a h) \<and>
     Vector2_add u u None h =
       (u, h\<lparr>vector2s := (vector2s h)[u :=
          \<lparr>v2x = Vector2_x u h + Vector2_x u h, v2y = Vector2_y u h + Vector2_y u h\<rparr>]\<rparr>) \<and>
     Vector2_add u u (Some u) h = Vector2_add u u None h \<and>
     (case Vector2_add u u None h of (r, h') \<Rightarrow>
        Vector2_x r h' = 2 * Vector2_x u h \<and> Vector2_y r h' = 2 * Vector2_y u h)"
proof -
  have three: "Vector3_add a a None h =
       (a, h\<lparr>vector3s := (vector3s h)[a :=
          \<lparr>v3x = Vector3_x a h + Vector3_x a h, v3y = Vector3_y a h + Vector3_y a h,
           v3z = Vector3_z a h + Vector3_z a h\<rparr>]\<rparr>)"
    using assms(1) by (simp only: Vector3_add_None)
  have three': "Vector3_add a a (Some a) h = Vector3_add a a None h"
    using assms(1) by (simp only: Vector3_add_None Vector3_add_Some)
  have two: "Vector2_add u u None h =
       (u, h\<lparr>vector2s := (vector2s h)[u :=
          \<lparr>v2x = Vector2_x u h + Vector2_x u h, v2y = Vector2_y u h + Vector2_y u h\<rparr>]\<rparr>)"
    using assms(2) by (simp only: Vector2_add_None)
  have two': "Vector2_add u u (Some u) h = Vector2_add u u None h"
    using assms(2) by (simp only: Vector2_add_None Vector2_add_Some)
  have read3: "case Vector3_add a a None h of (r, h') \<Rightarrow>
        Vector3_x r h' = 2 * Vector3_x a h \<and> Vector3_y r h' = 2 * Vector3_y a h \<and>
        Vector3_z r h' = 2 * Vector3_z a h"
    using assms(1) by (simp add: three) (simp add: Vector3_slots)
  have read2: "case Vector2_add u u None h of (r, h') \<Rightarrow>
        Vector2_x r h' = 2 * Vector2_x u h \<and> Vector2_y r h' = 2 * Vector2_y u h"
    using assms(2) by (simp add: two) (simp add: Vector2_slots)
  from three three' read3 two two' read2 show ?thesis by blast
qed

text \<open>On \<open>heap_A\<close>: \<open>(1, 2, 3)\<close> added to itself is \<open>(2, 4, 6)\<close>, and \<open>(1, 2)\<close> is \<open>(2, 4)\<close>.\<close>

theorem aliased_add_doubles_witness:
  "fst (Vector3_add 0 0 None heap_A) = 0 \<and>
   vector3s (snd (Vector3_add 0 0 None heap_A)) ! 0 = \<lparr>v3x = 2, v3y = 4, v3z = 6\<rparr> \<and>
   vector3s (snd (Vector3_add 0 0 (Some 0) heap_A)) ! 0 = \<lparr>v3x = 2, v3y = 4, v3z = 6\<rparr> \<and>
   fst (Vector2_add 0 0 None heap_A) = 0 \<and>
   vector2s (snd (Vector2_add 0 0 None heap_A)) ! 0 = \<lparr>v2x = 2, v2y = 4\<rparr> \<and>
   vector2s (snd (Vector2_add 0 0 (Some 0) heap_A)) ! 0 = \<lparr>v2x = 2, v2y = 4\<rparr>"
  using aliased_add_doubles [where a = 0 and u = 0 and h = heap_A]
  by (clarsimp simp add: heap_A_live heap_A_slots)

section \<open>Cross products\<close>

text \<open>
  Claim C7. In both dimensions \<open>cross\<close> returns a \<open>Vector3\<close> instance (a new one, or the
  destination passed). For operands of two components it holds \<open>(0, 0, x * y2 - y * x2)\<close>;
  for operands of three components it holds the cross product. Built with the
  constructors on any heap, \<open>cross(Vector2(1, 0), Vector2(0, 1))\<close> and
  \<open>cross(Vector3(1, 0, 0), Vector3(0, 1, 0))\<close> are both \<open>(0, 0, 1)\<close>.
\<close>

theorem cross_returns_Vector3:
  assumes "u < length (vector2s h)" and "v < length (vector2s h)"
    and "a < length (vector3s h)" and "b < length (vector3s h)"
    and "case dest of None \<Rightarrow> True | Some d \<Rightarrow> d < length (vector3s h)"
  shows
    "(case Vector2_cross u v dest h of (r, h') \<Rightarrow>
        r = (case dest of None \<Rightarrow> length (vector3s h) | Some d \<Rightarrow> d) \<and>
        vector3s h' ! r =
          \<lparr>v3x = 0, v3y = 0,
           v3z = Vector2_x u h * Vector2_y v h - Vector2_y u h * Vector2_x v h\<rparr> \<and>
        vector2s h' = vector2s h) \<and>
     (case Vector3_cross a b dest h of (r, h') \<Rightarrow>
        r = (case dest of None \<Rightarrow> length (vector3s h) | Some d \<Rightarrow> d) \<and>
        vector3s h' ! r =
          \<lparr>v3x = Vector3_y a h * Vector3_z b h - Vector3_z a h * Vector3_y b h,
           v3y = Vector3_z a h * Vector3_x b h - Vector3_x a h * Vector3_z b h,
           v3z = Vector3_x a h * Vector3_y b h - Vector3_y a h * Vector3_x b h\<rparr>) \<and>
     (case Vector2_new (Some [1, 0]) h of (p, h1) \<Rightarrow>
      case Vector2_new (Some [0, 1]) h1 of (q, h2) \<Rightarrow>
      case Vector2_cross p q None h2 of (r, h3) \<Rightarrow>
        vector3s h3 ! r = \<lparr>v3x = 0, v3y = 0, v3z = 1\<rparr>) \<and>
     (case Vector3_new (JSNumber 1) (JSNumber 0) (JSNumber 0) h of (p, h1) \<Rightarrow>
      case Vector3_new (JSNumber 0) (JSNumber 1) (JSNumber 0) h1 of (q, h2) \<Rightarrow>
      case Vector3_cross p q None h2 of (r, h3) \<Rightarrow>
        vector3s h3 ! r = \<lparr>v3x = 0, v3y = 0, v3z = 1\<rparr>)"
proof -
  have two: "case Vector2_cross u v dest h of (r, h') \<Rightarrow>
        r = (case dest of None \<Rightarrow> length (vector3s h) | Some d \<Rightarrow> d) \<and>
        vector3s h' ! r =
          \<lparr>v3x = 0, v3y = 0,
           v3z = Vector2_x u h * Vector2_y v h - Vector2_y u h * Vector2_x v h\<rparr> \<and>
        vector2s h' = vector2s h"
    using assms(5) by (cases dest) (simp_all add: Vector2_cross_None Vector2_cross_Some)
  have three: "case Vector3_cross a b dest h of (r, h') \<Rightarrow>
        r = (case dest of None \<Rightarrow> length (vector3s h) | Some d \<Rightarrow> d) \<and>
        vector3s h' ! r =
          \<lparr>v3x = Vector3_y a h * Vector3_z b h - Vector3_z a h * Vector3_y b h,
           v3y = Vector3_z a h * Vector3_x b h - Vector3_x a h * Vector3_z b h,
           v3z = Vector3_x a h * Vector3_y b h - Vector3_y a h * Vector3_x b h\<rparr>"
    using assms(3,4,5) by (cases dest) (simp_all add: Vector3_cross_None Vector3_cross_Some)
  have lit2: "case Vector2_new (Some [1, 0]) h of (p, h1) \<Rightarrow>
      case Vector2_new (Some [0, 1]) h1 of (q, h2) \<Rightarrow>
      case Vector2_cross p q None h2 of (r, h3) \<Rightarrow>
        vector3s h3 ! r = \<lparr>v3x = 0, v3y = 0, v3z = 1\<rparr>"
    by (simp add: Vector2_new_def Vector2_set_xy_def Let_def Vector2_cross_None Vector2_slots
        nth_append)
  have lit3: "case Vector3_new (JSNumber 1) (JSNumber 0) (JSNumber 0) h of (p, h1) \<Rightarrow>
      case Vector3_new (JSNumber 0) (JSNumber 1) (JSNumber 0) h1 of (q, h2) \<Rightarrow>
      case Vector3_cross p q None h2 of (r, h3) \<Rightarrow>
        vector3s h3 ! r = \<lparr>v3x = 0, v3y = 0, v3z = 1\<rparr>"
    by (simp add: Vector3_new_def Vector3_set_xyz_def or_zero_def Let_def Vector3_cross_None
        Vector3_slots nth_append)
  from two three lit2 lit3 show ?thesis by blast
qed

text \<open>
  On \<open>heap_A\<close>: the cross product of \<open>(1, 2)\<close> and \<open>(3, 4)\<close> is \<open>(0, 0, -2)\<close>, that of
  \<open>(1, 2, 3)\<close> and \<open>(4, 5, 6)\<close> is \<open>(-3, 6, -3)\<close>, each in a new \<open>Vector3\<close> at index \<open>2\<close>.
\<close>

theorem cross_returns_Vector3_witness:
  "fst (Vector2_cross 0 1 None heap_A) = 2 \<and>
   vector3s (snd (Vector2_cross 0 1 None heap_A)) ! 2 = \<lparr>v3x = 0, v3y = 0, v3z = - 2\<rparr> \<and>
   fst (Vector3_cross 0 1 None heap_A) = 2 \<and>
   vector3s (snd (Vector3_cross 0 1 None heap_A)) ! 2 = \<lparr>v3x = - 3, v3y = 6, v3z = - 3\<rparr>"
  using cross_returns_Vector3 [where u = 0 and v = 1 and a = 0 and b = 1 and dest = None
      and h = heap_A]
  by (clarsimp simp add: heap_A_live heap_A_slots case_prod_beta)

section \<open>Interpolation\<close>

text \<open>
  Claim C8, as the specification states it, has \<open>lerp(a, b, 1) = b\<close> for all vectors. For
  \<open>a = (2^70, 2^70, 2^70)\<close> and \<open>b = (1, 1, 1)\<close> the difference \<open>1 - 2^70\<close> rounds to \<open>-2^70\<close>
  in binary64, so \<open>a + 1 * (b - a)\<close> is 0 in every component: \<open>lerp(a, b, 1)\<close> is the zero
  vector. The same in two dimensions.
\<close>

theorem lerp_at_one_counterexample:
  "(case Vector3_new_f32 (JSNumber_f32 (Fin (2 ^ 70))) (JSNumber_f32 (Fin (2 ^ 70)))
           (JSNumber_f32 (Fin (2 ^ 70)))
           \<lparr>vector2s_f32 = [], vector3s_f32 = []\<rparr> of
      (a, h1) \<Rightarrow>
    case Vector3_new_f32 (JSNumber_f32 (Fin 1)) (JSNumber_f32 (Fin 1)) (JSNumber_f32 (Fin 1)) h1 of
      (b, h2) \<Rightarrow>
        vector3s_f32 h2 ! a = \<lparr>f3x = Fin (2 ^ 70), f3y = Fin (2 ^ 70), f3z = Fin (2 ^ 70)\<rparr> \<and>
        vector3s_f32 h2 ! b = \<lparr>f3x = Fin 1, f3y = Fin 1, f3z = Fin 1\<rparr> \<and>
        vector3s_f32 (snd (Vector3_lerp a b (Fin 1) None h2)) ! fst (Vector3_lerp a b (Fin 1) None h2)
          = \<lparr>f3x = Fin 0, f3y = Fin 0, f3z = Fin 0\<rparr>) \<and>
   (case Vector2_new_f32 (Some [Fin (2 ^ 70), Fin (2 ^ 70)])
           \<lparr>vector2s_f32 = [], vector3s_f32 = []\<rparr> of
      (a, h1) \<Rightarrow> case Vector2_new_f32 (Some [Fin 1, Fin 1]) h1 of
      (b, h2) \<Rightarrow>
        vector2s_f32 h2 ! a = \<lparr>f2x = Fin (2 ^ 70), f2y = Fin (2 ^ 70)\<rparr> \<and>
        vector2s_f32 h2 ! b = \<lparr>f2x = Fin 1, f2y = Fin 1\<rparr> \<and>
        vector2s_f32 (snd (Vector2_lerp a b (Fin 1) None h2)) ! fst (Vector2_lerp a b (Fin 1) None h2)
          = \<lparr>f2x = Fin 0, f2y = Fin 0\<rparr>)"
  using round32_power2 [of 70] round64_power2 [of 70] round64_one_minus_big
  by (simp add: Vector3_new_f32_def Vector2_new_f32_def Vector3_lerp_def Vector2_lerp_def
      Vector3_f32_slots Vector2_f32_slots Let_def number_or_zero_def
      Vector3_f32_update_all Vector2_f32_update_all js_sub_def round32_numeral round64_numeral)

text \<open>
  Claim C8, amended. For live vectors \<open>a\<close>, \<open>b\<close>, any number \<open>t\<close> and any destination,
  \<open>lerp(a, b, t)\<close> holds in every component \<open>a + t * (b - a)\<close> with the subtraction, the
  product and the sum each rounded to binary64 and the store to float32; \<open>t\<close> is not
  clamped, so a \<open>t\<close> outside \<open>[0, 1]\<close> extrapolates. If the components of \<open>a\<close> and \<open>b\<close> are
  finite float32 values, \<open>lerp(a, b, 0)\<close> holds \<open>a\<close>. If moreover each subtraction \<open>b - a\<close>
  is exact in binary64, \<open>lerp(a, b, 1)\<close> holds \<open>b\<close>; and if, further, each midpoint
  \<open>(a + b) / 2\<close> is a float32 value, \<open>lerp(a, b, 0.5)\<close> holds the midpoints. This holds for
  \<open>Vector3\<close> and \<open>Vector2\<close>.
\<close>

theorem lerp_rounds_each_component:
  assumes "a < length (vector3s_f32 h)" and "b < length (vector3s_f32 h)"
    and "case dest of None \<Rightarrow> True | Some d \<Rightarrow> d < length (vector3s_f32 h)"
    and "u < length (vector2s_f32 h)" and "v < length (vector2s_f32 h)"
    and "case dest2 of None \<Rightarrow> True | Some d \<Rightarrow> d < length (vector2s_f32 h)"
  shows
    "vector3s_f32 (snd (Vector3_lerp a b t dest h)) ! fst (Vector3_lerp a b t dest h) =
       \<lparr>f3x = fround (js_add (Vector3_x_f32 a h)
                  (js_mul t (js_sub (Vector3_x_f32 b h) (Vector3_x_f32 a h)))),
        f3y = fround (js_add (Vector3_y_f32 a h)
                  (js_mul t (js_sub (Vector3_y_f32 b h) (Vector3_y_f32 a h)))),
        f3z = fround (js_add (Vector3_z_f32 a h)
                  (js_mul t (js_sub (Vector3_z_f32 b h) (Vector3_z_f32 a h))))\<rparr> \<and>
     (vector3s_f32 h ! a = \<lparr>f3x = Fin a1, f3y = Fin a2, f3z = Fin a3\<rparr> \<and>
      vector3s_f32 h ! b = \<lparr>f3x = Fin b1, f3y = Fin b2, f3z = Fin b3\<rparr> \<and>
      is_float32 (Fin a1) \<and> is_float32 (Fin a2) \<and> is_float32 (Fin a3) \<and>
      is_float32 (Fin b1) \<and> is_float32 (Fin b2) \<and> is_float32 (Fin b3) \<longrightarrow>
        vector3s_f32 (snd (Vector3_lerp a b (Fin 0) dest h)) ! fst (Vector3_lerp a b (Fin 0) dest h)
          = vector3s_f32 h ! a \<and>
        (js_sub (Fin b1) (Fin a1) = Fin (b1 - a1) \<and> js_sub (Fin b2) (Fin a2) = Fin (b2 - a2) \<and>
         js_sub (Fin b3) (Fin a3) = Fin (b3 - a3) \<longrightarrow>
           vector3s_f32 (snd (Vector3_lerp a b (Fin 1) dest h))
               ! fst (Vector3_lerp a b (Fin 1) dest h)
             = vector3s_f32 h ! b \<and>
           (is_float32 (Fin ((a1 + b1) / 2)) \<and> is_float32 (Fin ((a2 + b2) / 2)) \<and>
            is_float32 (Fin ((a3 + b3) / 2)) \<longrightarrow>
              vector3s_f32 (snd (Vector3_lerp a b (Fin (1 / 2)) dest h))
                  ! fst (Vector3_lerp a b (Fin (1 / 2)) dest h)
                = \<lparr>f3x = Fin ((a1 + b1) / 2), f3y = Fin ((a2 + b2) / 2),
                   f3z = Fin ((a3 + b3) / 2)\<rparr>))) \<and>
     vector2s_f32 (snd (Vector2_lerp u v t dest2 h)) ! fst (Vector2_lerp u v t dest2 h) =
       \<lparr>f2x = fround (js_add (Vector2_x_f32 u h)
                  (js_mul t (js_sub (Vector2_x_f32 v h) (Vector2_x_f32 u h)))),
        f2y = fround (js_add (Vector2_y_f32 u h)
                  (js_mul t (js_sub (Vector2_y_f32 v h) (Vector2_y_f32 u h))))\<rparr> \<and>
     (vector2s_f32 h ! u = \<lparr>f2x = Fin u1, f2y = Fin u2\<rparr> \<and>
      vector2s_f32 h ! v = \<lparr>f2x = Fin v1, f2y = Fin v2\<rparr> \<and>
      is_float32 (Fin u1) \<and> is_float32 (Fin u2) \<and> is_float32 (Fin v1) \<and> is_float32 (Fin v2) \<longrightarrow>
        vector2s_f32 (snd (Vector2_lerp u v (Fin 0) dest2 h)) ! fst (Vector2_lerp u v (Fin 0) dest2 h)
          = vector2s_f32 h ! u \<and>
        (js_sub (Fin v1) (Fin u1) = Fin (v1 - u1) \<and> js_sub (Fin v2) (Fin u2) = Fin (v2 - u2) \<longrightarrow>
           vector2s_f32 (snd (Vector2_lerp u v (Fin 1) dest2 h))
               ! fst (Vector2_lerp u v (Fin 1) dest2 h)
             = vector2s_f32 h ! v \<and>
           (is_float32 (Fin ((u1 + v1) / 2)) \<and> is_float32 (Fin ((u2 + v2) / 2)) \<longrightarrow>
              vector2s_f32 (snd (Vector2_lerp u v (Fin (1 / 2)) dest2 h))
                  ! fst (Vector2_lerp u v (Fin (1 / 2)) dest2 h)
                = \<lparr>f2x = Fin ((u1 + v1) / 2), f2y = Fin ((u2 + v2) / 2)\<rparr>)))"
proof (intro conjI impI; (elim conjE)?)
  show "vector3s_f32 (snd (Vector3_lerp a b t dest h)) ! fst (Vector3_lerp a b t dest h) =
       \<lparr>f3x = fround (js_add (Vector3_x_f32 a h)
                  (js_mul t (js_sub (Vector3_x_f32 b h) (Vector3_x_f32 a h)))),
        f3y = fround (js_add (Vector3_y_f32 a h)
                  (js_mul t (js_sub (Vector3_y_f32 b h) (Vector3_y_f32 a h)))),
        f3z = fround (js_add (Vector3_z_f32 a h)
                  (js_mul t (js_sub (Vector3_z_f32 b h) (Vector3_z_f32 a h))))\<rparr>"
    using assms(1-3) by (rule Vector3_lerp_value)
  show "vector2s_f32 (snd (Vector2_lerp u v t dest2 h)) ! fst (Vector2_lerp u v t dest2 h) =
       \<lparr>f2x = fround (js_add (Vector2_x_f32 u h)
                  (js_mul t (js_sub (Vector2_x_f32 v h) (Vector2_x_f32 u h)))),
        f2y = fround (js_add (Vector2_y_f32 u h)
                  (js_mul t (js_sub (Vector2_y_f32 v h) (Vector2_y_f32 u h))))\<rparr>"
    using assms(4-6) by (rule Vector2_lerp_value)
qed (simp_all only: Vector3_lerp_endpoints [OF assms(1-3)] Vector2_lerp_endpoints [OF assms(4-6)])

text \<open>
  On \<open>heap_F\<close>, between \<open>(1, 2, 3)\<close> and \<open>(3, 4, 5)\<close>: \<open>t = 0\<close> gives the first, \<open>t = 1\<close> the
  second, \<open>t = 0.5\<close> gives \<open>(2, 3, 4)\<close>, and \<open>t = 2\<close> gives \<open>(5, 6, 7)\<close>, beyond the
  second. The same between \<open>(1, 2)\<close> and \<open>(3, 4)\<close>.
\<close>

theorem lerp_rounds_each_component_witness:
  "vector3s_f32 (snd (Vector3_lerp 3 4 (Fin 0) None heap_F)) ! fst (Vector3_lerp 3 4 (Fin 0) None heap_F)
     = \<lparr>f3x = Fin 1, f3y = Fin 2, f3z = Fin 3\<rparr> \<and>
   vector3s_f32 (snd (Vector3_lerp 3 4 (Fin 1) None heap_F)) ! fst (Vector3_lerp 3 4 (Fin 1) None heap_F)
     = \<lparr>f3x = Fin 3, f3y = Fin 4, f3z = Fin 5\<rparr> \<and>
   vector3s_f32 (snd (Vector3_lerp 3 4 (Fin (1 / 2)) None heap_F))
       ! fst (Vector3_lerp 3 4 (Fin (1 / 2)) None heap_F)
     = \<lparr>f3x = Fin 2, f3y = Fin 3, f3z = Fin 4\<rparr> \<and>
   vector3s_f32 (snd (Vector3_lerp 3 4 (Fin 2) None heap_F)) ! fst (Vector3_lerp 3 4 (Fin 2) None heap_F)
     = \<lparr>f3x = Fin 5, f3y = Fin 6, f3z = Fin 7\<rparr> \<and>
   vector2s_f32 (snd (Vector2_lerp 3 4 (Fin 0) None heap_F)) ! fst (Vector2_lerp 3 4 (Fin 0) None heap_F)
     = \<lparr>f2x = Fin 1, f2y = Fin 2\<rparr> \<and>
   vector2s_f32 (snd (Vector2_lerp 3 4 (Fin 1) None heap_F)) ! fst (Vector2_lerp 3 4 (Fin 1) None heap_F)
     = \<lparr>f2x = Fin 3, f2y = Fin 4\<rparr> \<and>
   vector2s_f32 (snd (Vector2_lerp 3 4 (Fin (1 / 2)) None heap_F))
       ! fst (Vector2_lerp 3 4 (Fin (1 / 2)) None heap_F)
     = \<lparr>f2x = Fin 2, f2y = Fin 3\<rparr> \<and>
   vector2s_f32 (snd (Vector2_lerp 3 4 (Fin 2) None heap_F)) ! fst (Vector2_lerp 3 4 (Fin 2) None heap_F)
     = \<lparr>f2x = Fin 5, f2y = Fin 6\<rparr>"
  using lerp_rounds_each_component [where a = 3 and b = 4 and u = 3 and v = 4 and h = heap_F
      and dest = None and ?dest2.0 = None and t = "Fin 2" and ?a1.0 = 1 and ?a2.0 = 2 and ?a3.0 = 3
      and ?b1.0 = 3 and ?b2.0 = 4 and ?b3.0 = 5 and ?u1.0 = 1 and ?u2.0 = 2
      and ?v1.0 = 3 and ?v2.0 = 4]
  by (simp add: heap_F_live heap_F_slots small_float32 js_sub_def round64_numeral
      round32_numeral Vector3_x_f32_def Vector3_y_f32_def Vector3_z_f32_def
      Vector2_x_f32_def Vector2_y_f32_def)

section \<open>The Vector3 constructor\<close>

text \<open>
  Claim C9. \<open>new Vector3(p1, p2, p3)\<close> copies the first three elements of \<open>p1\<close> only
  when \<open>p1\<close> is an array of length strictly greater than \<open>3\<close>. In every other case,
  an array of length exactly \<open>3\<close> included, each component is the coercion
  \<open>Number(p) || 0\<close> of the parameter in its position; for an array of length \<open>3\<close> the
  first component is therefore \<open>0\<close>, whatever the array holds. The coercion gives \<open>0\<close>
  for \<open>undefined\<close> and for an array of two or more numbers, and the number itself for a
  number.
\<close>

theorem Vector3_new_copies_longer_arrays_only:
  "Vector3_new p1 p2 p3 h =
     (length (vector3s h), h\<lparr>vector3s := vector3s h @
        [case p1 of
           JSArray vs \<Rightarrow>
             if 3 < length vs then \<lparr>v3x = vs ! 0, v3y = vs ! 1, v3z = vs ! 2\<rparr>
             else \<lparr>v3x = or_zero (Number p1), v3y = or_zero (Number p2),
                    v3z = or_zero (Number p3)\<rparr>
         | _ \<Rightarrow> \<lparr>v3x = or_zero (Number p1), v3y = or_zero (Number p2),
                  v3z = or_zero (Number p3)\<rparr>]\<rparr>) \<and>
   (length vs = 3 \<longrightarrow>
      Vector3_new (JSArray vs) p2 p3 h =
        (length (vector3s h), h\<lparr>vector3s := vector3s h @
           [\<lparr>v3x = 0, v3y = or_zero (Number p2), v3z = or_zero (Number p3)\<rparr>]\<rparr>)) \<and>
   or_zero (Number JSUndefined) = 0 \<and>
   or_zero (Number (JSNumber x)) = x \<and>
   (2 \<le> length vs \<longrightarrow> or_zero (Number (JSArray vs)) = 0)"
proof -
  have coerced: "or_zero (Number (JSArray vs)) = 0" if "2 \<le> length vs" for vs
  proof (cases vs)
    case Nil
    with that show ?thesis by simp
  next
    case (Cons v ws)
    with that show ?thesis by (cases ws) (simp_all add: or_zero_def)
  qed
  have built: "Vector3_new p1 p2 p3 h =
     (length (vector3s h), h\<lparr>vector3s := vector3s h @
        [case p1 of
           JSArray vs \<Rightarrow>
             if 3 < length vs then \<lparr>v3x = vs ! 0, v3y = vs ! 1, v3z = vs ! 2\<rparr>
             else \<lparr>v3x = or_zero (Number p1), v3y = or_zero (Number p2),
                    v3z = or_zero (Number p3)\<rparr>
         | _ \<Rightarrow> \<lparr>v3x = or_zero (Number p1), v3y = or_zero (Number p2),
                  v3z = or_zero (Number p3)\<rparr>]\<rparr>)" for p1
    by (cases p1)
      (simp_all add: Vector3_new_def Vector3_set_xyz_def Let_def Vector3_update_all)
  have three: "Vector3_new (JSArray vs) p2 p3 h =
        (length (vector3s h), h\<lparr>vector3s := vector3s h @
           [\<lparr>v3x = 0, v3y = or_zero (Number p2), v3z = or_zero (Number p3)\<rparr>]\<rparr>)"
    if "length vs = 3"
    using that by (simp add: built coerced)
  have "or_zero (Number JSUndefined) = 0" "or_zero (Number (JSNumber x)) = x"
    by (simp_all add: or_zero_def)
  with built three coerced show ?thesis by blast
qed

text \<open>
  On \<open>heap_A\<close>, where the new instance is at index \<open>2\<close>: \<open>new Vector3([1, 2, 3])\<close> is
  \<open>(0, 0, 0)\<close>, \<open>new Vector3([1, 2, 3], 8, 9)\<close> is \<open>(0, 8, 9)\<close>,
  \<open>new Vector3([1, 2, 3, 4])\<close> is \<open>(1, 2, 3)\<close> and \<open>new Vector3(1, 2, 3)\<close> is \<open>(1, 2, 3)\<close>.
\<close>

theorem Vector3_new_copies_longer_arrays_only_witness:
  "vector3s (snd (Vector3_new (JSArray [1, 2, 3]) JSUndefined JSUndefined heap_A)) ! 2
     = \<lparr>v3x = 0, v3y = 0, v3z = 0\<rparr> \<and>
   vector3s (snd (Vector3_new (JSArray [1, 2, 3]) (JSNumber 8) (JSNumber 9) heap_A)) ! 2
     = \<lparr>v3x = 0, v3y = 8, v3z = 9\<rparr> \<and>
   vector3s (snd (Vector3_new (JSArray [1, 2, 3, 4]) JSUndefined JSUndefined heap_A)) ! 2
     = \<lparr>v3x = 1, v3y = 2, v3z = 3\<rparr> \<and>
   vector3s (snd (Vector3_new (JSNumber 1) (JSNumber 2) (JSNumber 3) heap_A)) ! 2
     = \<lparr>v3x = 1, v3y = 2, v3z = 3\<rparr>"
proof -
  have three: "length [1, 2, 3 :: real] = 3" by simp
  from Vector3_new_copies_longer_arrays_only
    [where vs = "[1, 2, 3]" and ?p2.0 = JSUndefined and ?p3.0 = JSUndefined and h = heap_A]
  have a: "vector3s (snd (Vector3_new (JSArray [1, 2, 3]) JSUndefined JSUndefined heap_A)) ! 2
     = \<lparr>v3x = 0, v3y = 0, v3z = 0\<rparr>"
    by (clarsimp simp add: heap_A_live nth_append)
  from Vector3_new_copies_longer_arrays_only
    [where vs = "[1, 2, 3]" and ?p2.0 = "JSNumber 8" and ?p3.0 = "JSNumber 9" and h = heap_A
      and x = 8]
    Vector3_new_copies_longer_arrays_only [where x = 9]
  have b: "vector3s (snd (Vector3_new (JSArray [1, 2, 3]) (JSNumber 8) (JSNumber 9) heap_A)) ! 2
     = \<lparr>v3x = 0, v3y = 8, v3z = 9\<rparr>"
    by (clarsimp simp add: heap_A_live nth_append)
  from Vector3_new_copies_longer_arrays_only
    [where ?p1.0 = "JSArray [1, 2, 3, 4]" and ?p2.0 = JSUndefined and ?p3.0 = JSUndefined
      and h = heap_A]
  have c: "vector3s (snd (Vector3_new (JSArray [1, 2, 3, 4]) JSUndefined JSUndefined heap_A)) ! 2
     = \<lparr>v3x = 1, v3y = 2, v3z = 3\<rparr>"
    by (clarsimp simp add: heap_A_live nth_append)
  from Vector3_new_copies_longer_arrays_only
    [where ?p1.0 = "JSNumber 1" and ?p2.0 = "JSNumber 2" and ?p3.0 = "JSNumber 3"
      and h = heap_A and x = 1]
    Vector3_new_copies_longer_arrays_only [where x = 2]
    Vector3_new_copies_longer_arrays_only [where x = 3]
  have d: "vector3s (snd (Vector3_new (JSNumber 1) (JSNumber 2) (JSNumber 3) heap_A)) ! 2
     = \<lparr>v3x = 1, v3y = 2, v3z = 3\<rparr>"
    by (clarsimp simp add: heap_A_live nth_append)
  from a b c d show ?thesis by simp
qed

text \<open>
  Claim C10. For an array \<open>vs\<close> of two or three numbers, \<open>new Vector3(vs)\<close> is the zero
  vector whatever \<open>vs\<close> holds. Each of the constants \<open>one\<close>, \<open>up\<close>, \<open>down\<close>, \<open>right\<close>,
  \<open>left\<close>, \<open>forward\<close> and \<open>backward\<close> is built from an array of three numbers, so each
  returns a new instance holding \<open>(0, 0, 0)\<close>, the very result of \<open>zero\<close>, and not the
  vector its documentation names.
\<close>

theorem Vector3_constants_are_zero:
  "(length vs = 2 \<or> length vs = 3 \<longrightarrow>
      Vector3_new (JSArray vs) JSUndefined JSUndefined h =
        (length (vector3s h),
         h\<lparr>vector3s := vector3s h @ [\<lparr>v3x = 0, v3y = 0, v3z = 0\<rparr>]\<rparr>)) \<and>
   (\<forall>c \<in> set [Vector3_one, Vector3_up, Vector3_down, Vector3_right, Vector3_left,
                Vector3_forward, Vector3_backward].
      c h = (length (vector3s h),
             h\<lparr>vector3s := vector3s h @ [\<lparr>v3x = 0, v3y = 0, v3z = 0\<rparr>]\<rparr>) \<and>
      c h = Vector3_zero h) \<and>
   (case Vector3_one h of (r, h') \<Rightarrow> vector3s h' ! r \<noteq> \<lparr>v3x = 1, v3y = 1, v3z = 1\<rparr>) \<and>
   (case Vector3_up h of (r, h') \<Rightarrow> vector3s h' ! r \<noteq> \<lparr>v3x = 0, v3y = 1, v3z = 0\<rparr>) \<and>
   (case Vector3_down h of (r, h') \<Rightarrow> vector3s h' ! r \<noteq> \<lparr>v3x = 0, v3y = - 1, v3z = 0\<rparr>) \<and>
   (case Vector3_right h of (r, h') \<Rightarrow> vector3s h' ! r \<noteq> \<lparr>v3x = 1, v3y = 0, v3z = 0\<rparr>) \<and>
   (case Vector3_left h of (r, h') \<Rightarrow> vector3s h' ! r \<noteq> \<lparr>v3x = 0, v3y = 1, v3z = 0\<rparr>) \<and>
   (case Vector3_forward h of (r, h') \<Rightarrow> vector3s h' ! r \<noteq> \<lparr>v3x = 0, v3y = 0, v3z = 1\<rparr>) \<and>
   (case Vector3_backward h of (r, h') \<Rightarrow>
      vector3s h' ! r \<noteq> \<lparr>v3x = 0, v3y = 0, v3z = - 1\<rparr>)"
proof -
  have short: "Vector3_new (JSArray vs) JSUndefined JSUndefined h =
        (length (vector3s h),
         h\<lparr>vector3s := vector3s h @ [\<lparr>v3x = 0, v3y = 0, v3z = 0\<rparr>]\<rparr>)"
    if "length vs = 2 \<or> length vs = 3" for vs
  proof -
    from that obtain v w ws where "vs = v # w # ws" and "length vs \<le> 3"
      by (cases vs; cases "tl vs") auto
    then show ?thesis
      by (simp add: Vector3_new_def Vector3_set_xyz_def or_zero_def Let_def
          Vector3_update_all)
  qed
  have named: "c h = (length (vector3s h),
             h\<lparr>vector3s := vector3s h @ [\<lparr>v3x = 0, v3y = 0, v3z = 0\<rparr>]\<rparr>)"
    if "c \<in> set [Vector3_zero, Vector3_one, Vector3_up, Vector3_down, Vector3_right,
          Vector3_left, Vector3_forward, Vector3_backward]" for c
    using that
    by (auto simp add: Vector3_zero_def Vector3_one_def Vector3_up_def Vector3_down_def
        Vector3_right_def Vector3_left_def Vector3_forward_def Vector3_backward_def short)
  show ?thesis
    by (simp add: short named)
qed

text \<open>
  On \<open>heap_A\<close>: \<open>new Vector3([7, 8])\<close>, \<open>new Vector3([7, 8, 9])\<close>, \<open>Vector3.one\<close> and
  \<open>Vector3.backward\<close> each put \<open>(0, 0, 0)\<close> at index \<open>2\<close>.
\<close>

theorem Vector3_constants_are_zero_witness:
  "vector3s (snd (Vector3_new (JSArray [7, 8]) JSUndefined JSUndefined heap_A)) ! 2
     = \<lparr>v3x = 0, v3y = 0, v3z = 0\<rparr> \<and>
   vector3s (snd (Vector3_new (JSArray [7, 8, 9]) JSUndefined JSUndefined heap_A)) ! 2
     = \<lparr>v3x = 0, v3y = 0, v3z = 0\<rparr> \<and>
   fst (Vector3_one heap_A) = 2 \<and>
   vector3s (snd (Vector3_one heap_A)) ! 2 = \<lparr>v3x = 0, v3y = 0, v3z = 0\<rparr> \<and>
   vector3s (snd (Vector3_backward heap_A)) ! 2 = \<lparr>v3x = 0, v3y = 0, v3z = 0\<rparr>"
proof -
  from Vector3_constants_are_zero [where vs = "[7, 8]" and h = heap_A]
  have a: "vector3s (snd (Vector3_new (JSArray [7, 8]) JSUndefined JSUndefined heap_A)) ! 2
     = \<lparr>v3x = 0, v3y = 0, v3z = 0\<rparr>"
    "fst (Vector3_one heap_A) = 2"
    "vector3s (snd (Vector3_one heap_A)) ! 2 = \<lparr>v3x = 0, v3y = 0, v3z = 0\<rparr>"
    "vector3s (snd (Vector3_backward heap_A)) ! 2 = \<lparr>v3x = 0, v3y = 0, v3z = 0\<rparr>"
    by (clarsimp simp add: heap_A_live nth_append)+
  from Vector3_constants_are_zero [where vs = "[7, 8, 9]" and h = heap_A]
  have b: "vector3s (snd (Vector3_new (JSArray [7, 8, 9]) JSUndefined JSUndefined heap_A)) ! 2
     = \<lparr>v3x = 0, v3y = 0, v3z = 0\<rparr>"
    by (clarsimp simp add: heap_A_live nth_append)
  from a b show ?thesis by simp
qed

end
